theory Spec2Isabelle
  imports Complex_Main
begin

text \<open>
  A model of the class \<^verbatim>\<open>MocPlot\<close> of moc-plots-js and of its helpers \<^verbatim>\<open>niceNum\<close> and
  \<^verbatim>\<open>calculateTickValues\<close>. A method is a function from the plot before the call to the
  plot after it; what the method hands to the console, to the timers, to the registered
  callbacks and to the 2D context is kept in the plot record or returned as a list of
  calls.
\<close>

section \<open>JavaScript numbers\<close>

text \<open>
  A JavaScript \<^verbatim>\<open>number\<close> is modelled as a real number or one of the three special
  values \<^verbatim>\<open>Infinity\<close>, \<^verbatim>\<open>-Infinity\<close> and \<^verbatim>\<open>NaN\<close>. The operations of this section are
  exact on finite numbers; the operations of the next section round the exact result to
  the nearest double, as the code does. The sign of zero is not modelled (a zero divisor
  counts as \<^verbatim>\<open>+0\<close>). The special values follow IEEE 754 as ECMAScript prescribes:
  \<^verbatim>\<open>NaN\<close> is contagious and compares false with everything, \<^verbatim>\<open>Infinity - Infinity\<close>,
  \<^verbatim>\<open>0 * Infinity\<close> and \<^verbatim>\<open>0 / 0\<close> are \<^verbatim>\<open>NaN\<close>.
\<close>

datatype jsnum = Num real | PInf | NInf | NaN

fun js_neg :: "jsnum \<Rightarrow> jsnum" where
  "js_neg (Num a) = Num (- a)"
| "js_neg PInf = NInf"
| "js_neg NInf = PInf"
| "js_neg NaN = NaN"

fun js_add :: "jsnum \<Rightarrow> jsnum \<Rightarrow> jsnum" where
  "js_add (Num a) (Num b) = Num (a + b)"
| "js_add NaN _ = NaN"
| "js_add _ NaN = NaN"
| "js_add PInf NInf = NaN"
| "js_add NInf PInf = NaN"
| "js_add PInf _ = PInf"
| "js_add _ PInf = PInf"
| "js_add NInf _ = NInf"
| "js_add _ NInf = NInf"

definition js_sub :: "jsnum \<Rightarrow> jsnum \<Rightarrow> jsnum" where
  "js_sub a b = js_add a (js_neg b)"

text \<open>The sign of an infinite product or quotient; a zero factor gives \<^verbatim>\<open>NaN\<close>.\<close>

definition js_signed_inf :: "real \<Rightarrow> bool \<Rightarrow> jsnum" where
  "js_signed_inf a positive =
     (if a = 0 then NaN else if (0 < a) = positive then PInf else NInf)"

fun js_mul :: "jsnum \<Rightarrow> jsnum \<Rightarrow> jsnum" where
  "js_mul (Num a) (Num b) = Num (a * b)"
| "js_mul NaN _ = NaN"
| "js_mul _ NaN = NaN"
| "js_mul (Num a) PInf = js_signed_inf a True"
| "js_mul (Num a) NInf = js_signed_inf a False"
| "js_mul PInf (Num b) = js_signed_inf b True"
| "js_mul NInf (Num b) = js_signed_inf b False"
| "js_mul PInf PInf = PInf"
| "js_mul PInf NInf = NInf"
| "js_mul NInf PInf = NInf"
| "js_mul NInf NInf = PInf"

fun js_div :: "jsnum \<Rightarrow> jsnum \<Rightarrow> jsnum" where
  "js_div (Num a) (Num b) = (if b = 0 then js_signed_inf a True else Num (a / b))"
| "js_div NaN _ = NaN"
| "js_div _ NaN = NaN"
| "js_div (Num a) PInf = Num 0"
| "js_div (Num a) NInf = Num 0"
| "js_div PInf (Num b) = (if 0 \<le> b then PInf else NInf)"
| "js_div NInf (Num b) = (if 0 \<le> b then NInf else PInf)"
| "js_div PInf PInf = NaN"
| "js_div PInf NInf = NaN"
| "js_div NInf PInf = NaN"
| "js_div NInf NInf = NaN"

fun js_lt :: "jsnum \<Rightarrow> jsnum \<Rightarrow> bool" where
  "js_lt (Num a) (Num b) = (a < b)"
| "js_lt NaN _ = False"
| "js_lt _ NaN = False"
| "js_lt _ NInf = False"
| "js_lt PInf _ = False"
| "js_lt NInf _ = True"
| "js_lt _ PInf = True"

fun js_le :: "jsnum \<Rightarrow> jsnum \<Rightarrow> bool" where
  "js_le (Num a) (Num b) = (a \<le> b)"
| "js_le NaN _ = False"
| "js_le _ NaN = False"
| "js_le NInf _ = True"
| "js_le _ PInf = True"
| "js_le _ NInf = False"
| "js_le PInf _ = False"

definition js_gt :: "jsnum \<Rightarrow> jsnum \<Rightarrow> bool" where
  "js_gt a b = js_lt b a"

definition js_ge :: "jsnum \<Rightarrow> jsnum \<Rightarrow> bool" where
  "js_ge a b = js_le b a"

text \<open>Strict equality \<^verbatim>\<open>===\<close> on numbers: \<^verbatim>\<open>NaN\<close> differs from itself.\<close>

definition js_eq :: "jsnum \<Rightarrow> jsnum \<Rightarrow> bool" where
  "js_eq a b = (a \<noteq> NaN \<and> a = b)"

text \<open>Truthiness of a number: \<^verbatim>\<open>0\<close> and \<^verbatim>\<open>NaN\<close> are falsy.\<close>

definition js_truthy :: "jsnum \<Rightarrow> bool" where
  "js_truthy a = (a \<noteq> Num 0 \<and> a \<noteq> NaN)"

fun js_floor :: "jsnum \<Rightarrow> jsnum" where
  "js_floor (Num a) = Num (of_int \<lfloor>a\<rfloor>)"
| "js_floor v = v"

fun js_ceil :: "jsnum \<Rightarrow> jsnum" where
  "js_ceil (Num a) = Num (of_int \<lceil>a\<rceil>)"
| "js_ceil v = v"

text \<open>\<^verbatim>\<open>Math.log10\<close>: \<^verbatim>\<open>-Infinity\<close> at zero, \<^verbatim>\<open>NaN\<close> below it.\<close>

fun js_log10 :: "jsnum \<Rightarrow> jsnum" where
  "js_log10 (Num a) = (if 0 < a then Num (log 10 a) else if a = 0 then NInf else NaN)"
| "js_log10 PInf = PInf"
| "js_log10 NInf = NaN"
| "js_log10 NaN = NaN"

text \<open>\<^verbatim>\<open>Math.pow(10, e)\<close>.\<close>

fun js_pow10 :: "jsnum \<Rightarrow> jsnum" where
  "js_pow10 (Num e) = Num (10 powr e)"
| "js_pow10 PInf = PInf"
| "js_pow10 NInf = Num 0"
| "js_pow10 NaN = NaN"

text \<open>
  \<^verbatim>\<open>Math.min(...vs)\<close> and \<^verbatim>\<open>Math.max(...vs)\<close>: the identity of the empty call is
  \<^verbatim>\<open>Infinity\<close> (resp. \<^verbatim>\<open>-Infinity\<close>), and any \<^verbatim>\<open>NaN\<close> argument makes the result \<^verbatim>\<open>NaN\<close>.
\<close>

definition js_min2 :: "jsnum \<Rightarrow> jsnum \<Rightarrow> jsnum" where
  "js_min2 a b = (if a = NaN \<or> b = NaN then NaN else if js_lt b a then b else a)"

definition js_max2 :: "jsnum \<Rightarrow> jsnum \<Rightarrow> jsnum" where
  "js_max2 a b = (if a = NaN \<or> b = NaN then NaN else if js_lt a b then b else a)"

definition Math_min :: "jsnum list \<Rightarrow> jsnum" where
  "Math_min vs = foldl js_min2 PInf vs"

definition Math_max :: "jsnum list \<Rightarrow> jsnum" where
  "Math_max vs = foldl js_max2 NInf vs"

section \<open>Double-precision rounding\<close>

text \<open>
  The value of a real number as an IEEE 754 binary64 number: the nearest multiple of the
  unit in the last place, ties going to the even multiple. A double has 53 significant
  bits, so the unit in the last place of \<open>x\<close> is \<open>2\<close> to the power
  \<open>\<lfloor>log\<^sub>2 \<bar>x\<bar>\<rfloor> - 52\<close>, and \<open>2\<close> to the power \<open>-1074\<close> below the smallest normal number.
\<close>

definition round_half_even :: "real \<Rightarrow> int" where
  "round_half_even r =
     (let f = \<lfloor>r\<rfloor>; d = r - of_int f
      in if d < 1 / 2 then f else if 1 / 2 < d then f + 1 else if even f then f else f + 1)"

definition ulp_exponent :: "real \<Rightarrow> int" where
  "ulp_exponent x = (if x = 0 then - 1074 else max \<lfloor>log 2 \<bar>x\<bar>\<rfloor> (- 1022) - 52)"

definition ulp :: "real \<Rightarrow> real" where
  "ulp x = 2 powi ulp_exponent x"

definition fl :: "real \<Rightarrow> real" where
  "fl x = of_int (round_half_even (x / ulp x)) * ulp x"

text \<open>
  The result of an operation whose exact value is \<open>x\<close>: the rounded value, or an infinity
  when the rounded value is beyond the largest double.
\<close>

definition dbl :: "real \<Rightarrow> jsnum" where
  "dbl x =
     (let r = fl x
      in if 2 ^ 1024 \<le> r then PInf else if r \<le> - (2 ^ 1024) then NInf else Num r)"

fun js_round :: "jsnum \<Rightarrow> jsnum" where
  "js_round (Num a) = dbl a"
| "js_round v = v"

text \<open>The operators \<^verbatim>\<open>+\<close>, \<^verbatim>\<open>-\<close>, \<^verbatim>\<open>*\<close> and \<^verbatim>\<open>/\<close> on doubles.\<close>

definition dbl_add :: "jsnum \<Rightarrow> jsnum \<Rightarrow> jsnum" where
  "dbl_add a b = js_round (js_add a b)"

definition dbl_sub :: "jsnum \<Rightarrow> jsnum \<Rightarrow> jsnum" where
  "dbl_sub a b = js_round (js_sub a b)"

definition dbl_mul :: "jsnum \<Rightarrow> jsnum \<Rightarrow> jsnum" where
  "dbl_mul a b = js_round (js_mul a b)"

definition dbl_div :: "jsnum \<Rightarrow> jsnum \<Rightarrow> jsnum" where
  "dbl_div a b = js_round (js_div a b)"

text \<open>
  The unit roundoff and half the smallest positive double: one rounding changes \<open>x\<close> by
  at most \<open>unit_roundoff * \<bar>x\<bar> + half_tiny\<close>.
\<close>

definition unit_roundoff :: real where
  "unit_roundoff = 1 / 2 ^ 53"

definition half_tiny :: real where
  "half_tiny = 2 powi (- 1075)"

text \<open>
  The pointer handlers, the viewport transform and the follow tick are modelled with the
  rounded operators. The other functions are modelled with the exact ones.
\<close>

section \<open>The nice-number ticker\<close>

text \<open>\<^verbatim>\<open>niceNum(range, round)\<close>.\<close>

definition niceNum :: "jsnum \<Rightarrow> bool \<Rightarrow> jsnum" where
  "niceNum rng rnd =
     (let exponent = js_floor (js_log10 rng);
          fraction = js_div rng (js_pow10 exponent);
          niceFraction =
            (if rnd then
               (if js_lt fraction (Num 1.5) then Num 1
                else if js_lt fraction (Num 3) then Num 2
                else if js_lt fraction (Num 7) then Num 5
                else Num 10)
             else
               (if js_le fraction (Num 1) then Num 1
                else if js_le fraction (Num 2) then Num 2
                else if js_le fraction (Num 5) then Num 5
                else Num 10))
      in js_mul niceFraction (js_pow10 exponent))"

text \<open>
  The emission loop \<^verbatim>\<open>for (let x = niceMin; x <= niceMax; x += tickSpacing) ticks.push(x)\<close>.
  With a spacing that does not advance \<^verbatim>\<open>x\<close> the loop does not end; the result is then
  \<open>None\<close>.
\<close>

partial_function (option) tickLoop :: "jsnum \<Rightarrow> jsnum \<Rightarrow> jsnum \<Rightarrow> jsnum list \<Rightarrow> jsnum list option" where
  "tickLoop x niceMax tickSpacing ticks =
     (if js_le x niceMax then tickLoop (js_add x tickSpacing) niceMax tickSpacing (ticks @ [x])
      else Some ticks)"

definition tickSpacingOf :: "jsnum \<Rightarrow> jsnum \<Rightarrow> jsnum \<Rightarrow> jsnum" where
  "tickSpacingOf min_v max_v tickCount =
     (let rng = niceNum (js_sub max_v min_v) False
      in niceNum (js_div rng (js_sub tickCount (Num 1))) True)"

definition niceMinOf :: "jsnum \<Rightarrow> jsnum \<Rightarrow> jsnum" where
  "niceMinOf min_v tickSpacing = js_mul (js_floor (js_div min_v tickSpacing)) tickSpacing"

definition niceMaxOf :: "jsnum \<Rightarrow> jsnum \<Rightarrow> jsnum" where
  "niceMaxOf max_v tickSpacing = js_mul (js_ceil (js_div max_v tickSpacing)) tickSpacing"

text \<open>\<^verbatim>\<open>calculateTickValues(min, max, tickCount)\<close>.\<close>

definition calculateTickValues :: "jsnum \<Rightarrow> jsnum \<Rightarrow> jsnum \<Rightarrow> jsnum list option" where
  "calculateTickValues min_v max_v tickCount =
     (let tickSpacing = tickSpacingOf min_v max_v tickCount;
          niceMin = niceMinOf min_v tickSpacing;
          niceMax = niceMaxOf max_v tickSpacing
      in tickLoop niceMin niceMax tickSpacing [])"

section \<open>Data model\<close>

text \<open>A sample \<^verbatim>\<open>{x, y}\<close> of a buffer's \<^verbatim>\<open>data\<close> array.\<close>

record point =
  px :: jsnum
  py :: jsnum

text \<open>The bounds rectangle \<^verbatim>\<open>{x: {min, max}, y: {min, max}}\<close>.\<close>

record bounds =
  x_min :: jsnum
  x_max :: jsnum
  y_min :: jsnum
  y_max :: jsnum

record null_offset =
  null_x :: "jsnum option"
  null_y :: "jsnum option"

datatype placement = Left | Right | Top | Bottom

record discard_options =
  interval :: "jsnum option"

text \<open>
  The fields of \<^verbatim>\<open>Buffer\<close> that the modelled functions read or write. An optional field
  is an \<open>option\<close>, \<open>None\<close> standing for \<^verbatim>\<open>undefined\<close>. The styling fields and the
  \<^verbatim>\<open>lines\<close>, \<^verbatim>\<open>points\<close> and \<^verbatim>\<open>parametrics\<close> overlays only feed drawing calls and are
  left to the record's extension. A timer handle is a positive number.
\<close>

record buffer =
  data :: "point list option"
  visible :: "bool option"
  null :: "null_offset option"
  maxDataLength :: "jsnum option"
  discardOptions :: "discard_options option"
  discardInterval :: "nat option"
  axisVisible :: "bool option"
  axisPlacement :: "placement list option"
  tickCount :: "jsnum option"
  tickLength :: "jsnum option"
  tickLabelOffset :: "jsnum option"

record follow_options =
  enabledDefault :: bool
  follow_interval :: jsnum
  jumpOffsetX :: jsnum
  adjustY :: string
  disableOnInteraction :: bool

text \<open>
  The part of \<^verbatim>\<open>PlotOptions\<close> that is read: \<open>fixedWindowSize\<close> is
  \<^verbatim>\<open>options.bounds?.fixedWindowSize\<close>, \<open>tickIntervalX\<close> is
  \<^verbatim>\<open>options.axis?.tick?.interval?.x\<close>, \<open>gridShow\<close> is \<^verbatim>\<open>options.grid?.show\<close>, and
  \<open>localBufferOption\<close> maps a buffer key to its \<^verbatim>\<open>visible\<close> flag.
\<close>

record plot_options =
  follow :: follow_options
  fixedWindowSize :: "jsnum option"
  localBufferOption :: "(string \<times> bool) list"
  tickIntervalX :: "jsnum option"
  tickIntervalY :: "jsnum option"
  gridShow :: "bool option"

type_synonym callback = nat

datatype timer_task = FollowTick | DiscardTick string

datatype level = ConsoleWarn | ConsoleError

datatype diagnostic =
    BufferDoesNotExist string
  | BufferMissingOrEmpty string
  | PointIndexOutOfBounds jsnum
  | InvalidPoint jsnum
  | InvalidRenderMode string

text \<open>
  The fields of \<^verbatim>\<open>MocPlot\<close>, followed by the environment the methods touch: the size
  of the parent element, the canvas's bounding rectangle, the console, the running
  interval timers (handle, task, delay) with the next free handle, and the trace of the
  callbacks that were invoked. \<open>buffers\<close> is the \<^verbatim>\<open>Map\<close> in insertion order.
\<close>

record plot =
  buffers :: "(string \<times> buffer) list"
  options :: plot_options
  canvas_width :: jsnum
  canvas_height :: jsnum
  bounds :: "bounds option"
  normalizeBounds :: bool
  followTimer :: "nat option"
  isDragging :: bool
  lastMousePos :: point
  onFollowStartFunc :: "callback option"
  onFollowStopFunc :: "callback option"
  renderMode :: string
  parent_clientWidth :: jsnum
  parent_clientHeight :: jsnum
  rect_left :: jsnum
  rect_top :: jsnum
  console :: "(level \<times> diagnostic) list"
  timers :: "(nat \<times> timer_task \<times> jsnum) list"
  nextTimer :: nat
  invoked :: "callback list"

record mouse_event =
  clientX :: jsnum
  clientY :: jsnum

text \<open>\<^verbatim>\<open>v || 0\<close> and \<^verbatim>\<open>v ?? 0\<close> on an optional number.\<close>

definition or_zero :: "jsnum option \<Rightarrow> jsnum" where
  "or_zero v = (case v of None \<Rightarrow> Num 0 | Some a \<Rightarrow> if js_truthy a then a else Num 0)"

definition nullish_zero :: "jsnum option \<Rightarrow> jsnum" where
  "nullish_zero v = (case v of None \<Rightarrow> Num 0 | Some a \<Rightarrow> a)"

text \<open>\<^verbatim>\<open>buffer.null?.x\<close> and \<^verbatim>\<open>buffer.null?.y\<close>.\<close>

definition buffer_null_x :: "buffer \<Rightarrow> jsnum option" where
  "buffer_null_x b = (case null b of None \<Rightarrow> None | Some n \<Rightarrow> null_x n)"

definition buffer_null_y :: "buffer \<Rightarrow> jsnum option" where
  "buffer_null_y b = (case null b of None \<Rightarrow> None | Some n \<Rightarrow> null_y n)"

text \<open>\<^verbatim>\<open>Map.get\<close> and \<^verbatim>\<open>Map.set\<close>: an existing key keeps its position, a new one is appended.\<close>

definition map_get :: "(string \<times> 'v) list \<Rightarrow> string \<Rightarrow> 'v option" where
  "map_get m k = map_of m k"

fun map_set :: "(string \<times> 'v) list \<Rightarrow> string \<Rightarrow> 'v \<Rightarrow> (string \<times> 'v) list" where
  "map_set [] k v = [(k, v)]"
| "map_set ((k', v') # m) k v = (if k' = k then (k, v) # m else (k', v') # map_set m k v)"

section \<open>computeBounds\<close>

text \<open>The skip test at the head of the loop body of \<^verbatim>\<open>computeBounds\<close>.\<close>

definition skipped :: "plot_options \<Rightarrow> string \<Rightarrow> buffer \<Rightarrow> bool" where
  "skipped opts key b =
     (case data b of
        None \<Rightarrow> True
      | Some d \<Rightarrow> d = [] \<or> visible b = Some False
                  \<or> map_get (localBufferOption opts) key = Some False)"

definition boundsStep :: "plot_options \<Rightarrow> bounds \<Rightarrow> string \<times> buffer \<Rightarrow> bounds" where
  "boundsStep opts acc kb =
     (let key = fst kb; b = snd kb in
      if skipped opts key b then acc
      else
        let d = the (data b);
            xNull = or_zero (buffer_null_x b);
            yNull = or_zero (buffer_null_y b);
            xValues = map (\<lambda>p. js_sub (px p) xNull) d;
            yValues = map (\<lambda>p. js_sub (py p) yNull) d;
            bufferXMin = Math_min xValues;
            bufferXMax = Math_max xValues;
            bufferYMin = Math_min yValues;
            bufferYMax = Math_max yValues
        in \<lparr> x_min = (if js_lt bufferXMin (x_min acc) then bufferXMin else x_min acc),
             x_max = (if js_gt bufferXMax (x_max acc) then bufferXMax else x_max acc),
             y_min = (if js_lt bufferYMin (y_min acc) then bufferYMin else y_min acc),
             y_max = (if js_gt bufferYMax (y_max acc) then bufferYMax else y_max acc) \<rparr>)"

definition computeBounds :: "plot \<Rightarrow> bounds" where
  "computeBounds st =
     foldl (boundsStep (options st))
       \<lparr> x_min = PInf, x_max = NInf, y_min = PInf, y_max = NInf \<rparr> (buffers st)"








section \<open>The viewport transform\<close>

text \<open>
  The bounds \<^verbatim>\<open>drawBuffer\<close> works with: a fresh copy of the plot's bounds (the canvas
  rectangle when there are none), widened over the buffer's samples when
  \<^verbatim>\<open>normalizeBounds\<close> is set.
\<close>

definition normalizeStep :: "jsnum \<Rightarrow> jsnum \<Rightarrow> bounds \<Rightarrow> point \<Rightarrow> bounds" where
  "normalizeStep nx ny b p =
     (let b1 = (if js_lt (px p) (js_add (x_min b) nx) then b\<lparr>x_min := js_sub (px p) nx\<rparr> else b);
          b2 = (if js_gt (px p) (js_add (x_max b1) nx) then b1\<lparr>x_max := js_sub (px p) nx\<rparr> else b1);
          b3 = (if js_lt (py p) (js_add (y_min b2) ny) then b2\<lparr>y_min := py p\<rparr> else b2)
      in (if js_gt (py p) (js_add (y_max b3) ny) then b3\<lparr>y_max := py p\<rparr> else b3))"

definition drawBounds :: "plot \<Rightarrow> buffer \<Rightarrow> bounds" where
  "drawBounds st b =
     (let d = (case data b of None \<Rightarrow> [] | Some d \<Rightarrow> d);
          nx = nullish_zero (buffer_null_x b);
          ny = nullish_zero (buffer_null_y b);
          b0 = (case bounds st of
                  None \<Rightarrow> \<lparr> x_min = Num 0, x_max = canvas_width st,
                              y_min = Num 0, y_max = canvas_height st \<rparr>
                | Some c \<Rightarrow> c)
      in if normalizeBounds st then foldl (normalizeStep nx ny) b0 d else b0)"

text \<open>
  \<^verbatim>\<open>scale\<close> as \<^verbatim>\<open>drawBuffer\<close> computes it once the range guard is passed: it starts at
  \<^verbatim>\<open>{x: 1, y: 1}\<close> and is overwritten unless both ranges are \<^verbatim>\<open>Infinity\<close>.
\<close>

definition drawScale :: "bounds \<Rightarrow> jsnum \<Rightarrow> jsnum \<Rightarrow> jsnum \<times> jsnum" where
  "drawScale b w h =
     (let range_x = dbl_sub (x_max b) (x_min b);
          range_y = dbl_sub (y_max b) (y_min b)
      in if range_x \<noteq> PInf \<or> range_y \<noteq> PInf
         then (dbl_div w range_x, dbl_div h range_y)
         else (Num 1, Num 1))"

text \<open>
  The canvas position of a sample, the expression every data branch of \<^verbatim>\<open>drawBuffer\<close>
  passes to \<^verbatim>\<open>moveTo\<close>, \<^verbatim>\<open>lineTo\<close> and \<^verbatim>\<open>arc\<close>:
  \<^verbatim>\<open>(point.x - nullPosition.x - bounds.x.min) * scale.x\<close> and
  \<^verbatim>\<open>this.canvas.height - (point.y - nullPosition.y - bounds.y.min) * scale.y\<close>.
\<close>

definition canvasPosition :: "bounds \<Rightarrow> jsnum \<Rightarrow> jsnum \<Rightarrow> jsnum \<Rightarrow> jsnum \<Rightarrow> point \<Rightarrow> point" where
  "canvasPosition b w h nx ny p =
     (let scale = drawScale b w h
      in \<lparr> px = dbl_mul (dbl_sub (dbl_sub (px p) nx) (x_min b)) (fst scale),
           py = dbl_sub h (dbl_mul (dbl_sub (dbl_sub (py p) ny) (y_min b)) (snd scale)) \<rparr>)"

record mouse_plot_position =
  pos_x :: jsnum
  pos_y :: jsnum
  pos_scale :: "jsnum \<times> jsnum"
  plotOffsets :: "(string \<times> jsnum \<times> jsnum) list"

text \<open>\<^verbatim>\<open>if (!this.bounds) this.bounds = this.computeBounds()\<close>.\<close>

definition ensureBounds :: "plot \<Rightarrow> plot" where
  "ensureBounds st = (if bounds st = None then st\<lparr>bounds := Some (computeBounds st)\<rparr> else st)"

definition getMousePlotPosition :: "mouse_event \<Rightarrow> plot \<Rightarrow> plot \<times> mouse_plot_position" where
  "getMousePlotPosition event st =
     (let offsets = map (\<lambda>(key, b). (key, nullish_zero (buffer_null_x b),
                                        nullish_zero (buffer_null_y b))) (buffers st);
          st1 = ensureBounds st;
          b = the (bounds st1);
          range_x = dbl_sub (x_max b) (x_min b);
          range_y = dbl_sub (y_max b) (y_min b);
          scale = (dbl_div (canvas_width st1) range_x, dbl_div (canvas_height st1) range_y);
          mouse_x = dbl_sub (clientX event) (rect_left st1);
          mouse_y = dbl_sub (clientY event) (rect_top st1)
      in (st1,
          \<lparr> pos_x = dbl_add (x_min b) (dbl_mul (dbl_div mouse_x (canvas_width st1)) range_x),
            pos_y = dbl_add (y_min b)
                      (dbl_mul (dbl_sub (Num 1) (dbl_div mouse_y (canvas_height st1))) range_y),
            pos_scale = scale,
            plotOffsets = offsets \<rparr>))"

text \<open>
  The only field of the plot that \<^verbatim>\<open>render()\<close> writes is \<^verbatim>\<open>bounds\<close>, at the head of
  \<^verbatim>\<open>renderAxes\<close>; everything else it does is drawing calls on the 2D context. The buffer
  methods below that end in \<^verbatim>\<open>if (this.renderMode === "auto") this.render()\<close> use this
  effect.
\<close>

definition render_effect :: "plot \<Rightarrow> plot" where
  "render_effect st =
     (if bounds st = None \<or> normalizeBounds st then st\<lparr>bounds := Some (computeBounds st)\<rparr>
      else st)"

definition autoRender :: "plot \<Rightarrow> plot" where
  "autoRender st = (if renderMode st = ''auto'' then render_effect st else st)"


section \<open>Timers and the follow controller\<close>

text \<open>
  \<^verbatim>\<open>setInterval\<close> registers a task and returns a fresh handle; \<^verbatim>\<open>clearInterval\<close> removes
  the task with that handle. Handles are never zero, so a stored handle is truthy.
\<close>

definition setInterval :: "timer_task \<Rightarrow> jsnum \<Rightarrow> plot \<Rightarrow> nat \<times> plot" where
  "setInterval task delay st =
     (let h = Suc (nextTimer st)
      in (h, st\<lparr>timers := timers st @ [(h, task, delay)], nextTimer := h\<rparr>))"

definition clearInterval :: "nat \<Rightarrow> plot \<Rightarrow> plot" where
  "clearInterval h st = st\<lparr>timers := filter (\<lambda>t. fst t \<noteq> h) (timers st)\<rparr>"

text \<open>
  Invoking a registered callback is recorded in the trace \<open>invoked\<close>; what the host's
  callback does is outside the model.
\<close>

definition invoke :: "callback option \<Rightarrow> plot \<Rightarrow> plot" where
  "invoke cb st = (case cb of None \<Rightarrow> st | Some c \<Rightarrow> st\<lparr>invoked := invoked st @ [c]\<rparr>)"

definition startFollowingLatest :: "plot \<Rightarrow> plot" where
  "startFollowingLatest st =
     (let st1 = (case followTimer st of None \<Rightarrow> st | Some h \<Rightarrow> clearInterval h st);
          (h', st2) = setInterval FollowTick (follow_interval (follow (options st1))) st1;
          st3 = st2\<lparr>followTimer := Some h'\<rparr>
      in invoke (onFollowStartFunc st3) st3)"

definition stopFollowingLatest :: "plot \<Rightarrow> plot" where
  "stopFollowingLatest st =
     (let st1 = (case followTimer st of
                   None \<Rightarrow> st
                 | Some h \<Rightarrow> (clearInterval h st)\<lparr>followTimer := None\<rparr>)
      in invoke (onFollowStopFunc st1) st1)"



section \<open>Data retention\<close>

text \<open>
  \<^verbatim>\<open>Array.prototype.slice(start)\<close>: \<^verbatim>\<open>start\<close> is truncated to an integer (\<^verbatim>\<open>NaN\<close> counts as
  \<^verbatim>\<open>0\<close>), a negative one counts from the end, and the result is clamped to the array.
\<close>

definition js_slice :: "'a list \<Rightarrow> jsnum \<Rightarrow> 'a list" where
  "js_slice xs start =
     (case start of
        NaN \<Rightarrow> xs
      | NInf \<Rightarrow> xs
      | PInf \<Rightarrow> []
      | Num r \<Rightarrow>
          let t = (if 0 \<le> r then \<lfloor>r\<rfloor> else \<lceil>r\<rceil>)
          in if t < 0 then drop (nat (max (int (length xs) + t) 0)) xs
             else drop (nat (min t (int (length xs)))) xs)"

text \<open>Truthiness of the optional number \<^verbatim>\<open>buffer.maxDataLength\<close>.\<close>

definition hasMaxDataLength :: "buffer \<Rightarrow> bool" where
  "hasMaxDataLength b = (case maxDataLength b of None \<Rightarrow> False | Some n \<Rightarrow> js_truthy n)"

text \<open>The callback that \<^verbatim>\<open>setBufferDiscardOptions\<close> hands to \<^verbatim>\<open>setInterval\<close>: one retention tick.\<close>

definition discardTick :: "string \<Rightarrow> plot \<Rightarrow> plot" where
  "discardTick key st =
     (case map_get (buffers st) key of
        None \<Rightarrow> st
      | Some b \<Rightarrow>
          if \<not> hasMaxDataLength b then st
          else
            (case data b of
               None \<Rightarrow> st
             | Some d \<Rightarrow>
                 let n = the (maxDataLength b)
                 in if js_gt (Num (real (length d))) n
                    then st\<lparr>buffers := map_set (buffers st) key
                              (b\<lparr>data := Some (js_slice d (js_sub (Num (real (length d))) n))\<rparr>)\<rparr>
                    else st))"

text \<open>\<^verbatim>\<open>buffer.discardOptions?.interval\<close>.\<close>

definition discard_interval_of :: "discard_options option \<Rightarrow> jsnum option" where
  "discard_interval_of d = (case d of None \<Rightarrow> None | Some r \<Rightarrow> interval r)"

text \<open>
  \<^verbatim>\<open>setBufferDiscardOptions(key, options)\<close>. The map receives a copy of the buffer with the
  merged options; the new timer's handle is then stored in the object that was read from
  the map before, which the map no longer holds, and the delay is read from that object
  too.
\<close>

definition setBufferDiscardOptions :: "string \<Rightarrow> discard_options option \<Rightarrow> plot \<Rightarrow> plot" where
  "setBufferDiscardOptions key opts st =
     (case map_get (buffers st) key of
        None \<Rightarrow> st
      | Some b \<Rightarrow>
          let merged = \<lparr> interval = (case discard_interval_of opts of
                                       Some v \<Rightarrow> Some v
                                     | None \<Rightarrow> discard_interval_of (discardOptions b)) \<rparr>;
              st1 = st\<lparr>buffers := map_set (buffers st) key (b\<lparr>discardOptions := Some merged\<rparr>)\<rparr>;
              st2 = (case discardInterval b of None \<Rightarrow> st1 | Some h \<Rightarrow> clearInterval h st1);
              st3 = (if hasMaxDataLength b
                     then snd (setInterval (DiscardTick key)
                                 (case discard_interval_of (discardOptions b) of
                                    None \<Rightarrow> Num 1000 | Some v \<Rightarrow> v) st2)
                     else st2)
          in autoRender st3)"

section \<open>Buffer updates, focus and render mode\<close>

text \<open>
  A \<^verbatim>\<open>Partial<Buffer>\<close>: \<open>None\<close> for a field the object does not have, otherwise the new
  content of the field.
\<close>

record partial_buffer =
  new_data :: "point list option option"
  new_visible :: "bool option option"
  new_null :: "null_offset option option"
  new_maxDataLength :: "jsnum option option"
  new_discardOptions :: "discard_options option option"
  new_discardInterval :: "nat option option"
  new_axisVisible :: "bool option option"
  new_axisPlacement :: "placement list option option"
  new_tickCount :: "jsnum option option"
  new_tickLength :: "jsnum option option"
  new_tickLabelOffset :: "jsnum option option"

datatype buffer_update = Fields partial_buffer | Function "buffer \<Rightarrow> partial_buffer"

text \<open>\<^verbatim>\<open>{ ...originalBuffer, ...buffer }\<close>.\<close>

definition spread :: "buffer \<Rightarrow> partial_buffer \<Rightarrow> buffer" where
  "spread b p =
     \<lparr> data = (case new_data p of None \<Rightarrow> data b | Some v \<Rightarrow> v),
       visible = (case new_visible p of None \<Rightarrow> visible b | Some v \<Rightarrow> v),
       null = (case new_null p of None \<Rightarrow> null b | Some v \<Rightarrow> v),
       maxDataLength = (case new_maxDataLength p of None \<Rightarrow> maxDataLength b | Some v \<Rightarrow> v),
       discardOptions = (case new_discardOptions p of None \<Rightarrow> discardOptions b | Some v \<Rightarrow> v),
       discardInterval = (case new_discardInterval p of None \<Rightarrow> discardInterval b | Some v \<Rightarrow> v),
       axisVisible = (case new_axisVisible p of None \<Rightarrow> axisVisible b | Some v \<Rightarrow> v),
       axisPlacement = (case new_axisPlacement p of None \<Rightarrow> axisPlacement b | Some v \<Rightarrow> v),
       tickCount = (case new_tickCount p of None \<Rightarrow> tickCount b | Some v \<Rightarrow> v),
       tickLength = (case new_tickLength p of None \<Rightarrow> tickLength b | Some v \<Rightarrow> v),
       tickLabelOffset = (case new_tickLabelOffset p of None \<Rightarrow> tickLabelOffset b | Some v \<Rightarrow> v) \<rparr>"

definition log_console :: "level \<Rightarrow> diagnostic \<Rightarrow> plot \<Rightarrow> plot" where
  "log_console l d st = st\<lparr>console := console st @ [(l, d)]\<rparr>"

text \<open>\<^verbatim>\<open>updateBuffer(key, buffer)\<close>.\<close>

definition updateBuffer :: "string \<Rightarrow> buffer_update \<Rightarrow> plot \<Rightarrow> plot" where
  "updateBuffer key upd st =
     (case map_get (buffers st) key of
        None \<Rightarrow> log_console ConsoleError (BufferDoesNotExist key) st
      | Some originalBuffer \<Rightarrow>
          let p = (case upd of Fields q \<Rightarrow> q | Function f \<Rightarrow> f originalBuffer);
              st1 = st\<lparr>buffers := map_set (buffers st) key (spread originalBuffer p)\<rparr>;
              st2 = (case new_discardOptions p of
                       Some (Some o1) \<Rightarrow>
                         setBufferDiscardOptions key
                           (case map_get (buffers st1) key of
                              None \<Rightarrow> None | Some b \<Rightarrow> discardOptions b) st1
                     | _ \<Rightarrow> st1)
          in autoRender st2)"

text \<open>
  \<^verbatim>\<open>data[targetIndex]\<close> for a numeric index: an element for an integer within the array,
  \<^verbatim>\<open>undefined\<close> otherwise.
\<close>

definition js_index :: "'a list \<Rightarrow> jsnum \<Rightarrow> 'a option" where
  "js_index xs i =
     (case i of
        Num r \<Rightarrow> if r = of_int \<lfloor>r\<rfloor> \<and> 0 \<le> r \<and> r < real (length xs)
                  then Some (xs ! nat \<lfloor>r\<rfloor>) else None
      | _ \<Rightarrow> None)"

text \<open>\<^verbatim>\<open>focusOnPoint(bufferKey, pointIndex = -1, options?)\<close>; \<open>zoom\<close> is \<^verbatim>\<open>options?.zoomFactor\<close>.\<close>

definition focusOnPoint :: "string \<Rightarrow> jsnum option \<Rightarrow> jsnum option \<Rightarrow> plot \<Rightarrow> plot" where
  "focusOnPoint bufferKey pointIndexArg zoom st =
     (let pointIndex = (case pointIndexArg of None \<Rightarrow> Num (- 1) | Some i \<Rightarrow> i);
          d = (case map_get (buffers st) bufferKey of None \<Rightarrow> None | Some b \<Rightarrow> data b)
      in if d = None \<or> d = Some []
         then log_console ConsoleWarn (BufferMissingOrEmpty bufferKey) st
         else
           let b = the (map_get (buffers st) bufferKey);
               ds = the d;
               len = Num (real (length ds));
               targetIndex = (if js_eq pointIndex (Num (- 1)) then js_sub len (Num 1)
                              else pointIndex)
           in if js_lt targetIndex (Num 0) \<or> js_ge targetIndex len
              then log_console ConsoleWarn (PointIndexOutOfBounds targetIndex) st
              else
                (case js_index ds targetIndex of
                   None \<Rightarrow> log_console ConsoleWarn (InvalidPoint targetIndex) st
                 | Some targetPoint \<Rightarrow>
                     let focus_x = js_sub (px targetPoint) (nullish_zero (buffer_null_x b));
                         focus_y = js_sub (py targetPoint) (nullish_zero (buffer_null_y b));
                         st1 = ensureBounds st;
                         c = the (bounds st1);
                         range_x = js_sub (x_max c) (x_min c);
                         range_y = js_sub (y_max c) (y_min c);
                         zoomFactor = (case zoom of None \<Rightarrow> Num 1 | Some z \<Rightarrow> z);
                         new_x = js_mul range_x zoomFactor;
                         new_y = js_mul range_y zoomFactor;
                         c' = \<lparr> x_min = js_sub focus_x (js_div new_x (Num 2)),
                                x_max = js_add focus_x (js_div new_x (Num 2)),
                                y_min = js_sub focus_y (js_div new_y (Num 2)),
                                y_max = js_add focus_y (js_div new_y (Num 2)) \<rparr>
                     in autoRender (st1\<lparr>bounds := Some c'\<rparr>)))"

text \<open>\<^verbatim>\<open>setRenderMode(mode)\<close>; at run time \<^verbatim>\<open>mode\<close> is any string.\<close>

definition setRenderMode :: "string \<Rightarrow> plot \<Rightarrow> plot" where
  "setRenderMode mode st =
     (if mode \<notin> set [''auto'', ''manual'']
      then log_console ConsoleError (InvalidRenderMode mode) st
      else st\<lparr>renderMode := mode\<rparr>)"

section \<open>Rendering\<close>

text \<open>
  The calls a render makes on the 2D context, in order. A style assignment is recorded
  without its value; \<open>FillText v x y\<close> is \<^verbatim>\<open>fillText(v.toFixed(2), x, y)\<close>.
\<close>

datatype style_attr = StrokeStyle | FillStyle | LineWidth | Font | TextAlign | TextBaseline

datatype canvas_op =
    Save
  | Restore
  | ClearRect jsnum jsnum jsnum jsnum
  | SetStyle style_attr
  | BeginPath
  | MoveTo jsnum jsnum
  | LineTo jsnum jsnum
  | Stroke
  | FillText jsnum jsnum jsnum

text \<open>The calls that put something on the canvas.\<close>

fun is_geometry :: "canvas_op \<Rightarrow> bool" where
  "is_geometry Save = False"
| "is_geometry Restore = False"
| "is_geometry (ClearRect _ _ _ _) = False"
| "is_geometry (SetStyle _) = False"
| "is_geometry _ = True"

datatype axis = AxisX | AxisY

text \<open>\<^verbatim>\<open>calculateTickInterval(min, max)\<close>.\<close>

definition calculateTickInterval :: "jsnum \<Rightarrow> jsnum \<Rightarrow> jsnum" where
  "calculateTickInterval min_v max_v =
     (let rng = js_sub max_v min_v;
          roughTickSize = js_div rng (Num 10);
          orderOfMagnitude = js_pow10 (js_floor (js_log10 roughTickSize))
      in case find (\<lambda>sz. js_lt roughTickSize (js_mul (Num sz) orderOfMagnitude))
                   [1, 2, 5, 10] of
           None \<Rightarrow> js_mul (Num 1) orderOfMagnitude
         | Some sz \<Rightarrow> js_mul (Num sz) orderOfMagnitude)"

text \<open>The body of the loop of \<^verbatim>\<open>drawTicks\<close> for one tick \<open>v\<close>.\<close>

definition tickOps ::
  "plot \<Rightarrow> axis \<Rightarrow> jsnum \<Rightarrow> jsnum \<Rightarrow> jsnum \<Rightarrow> jsnum \<Rightarrow> jsnum \<Rightarrow> bool \<Rightarrow> jsnum \<Rightarrow> canvas_op list" where
  "tickOps st ax min_v zeroPos scale tickLen labelOffset grid v =
     (let pos = js_mul (js_sub v min_v) scale;
          tickStart = js_sub zeroPos tickLen;
          tickEnd = js_add zeroPos tickLen
      in case ax of
           AxisX \<Rightarrow>
             (if grid then [SetStyle StrokeStyle, SetStyle FillStyle, BeginPath,
                            MoveTo pos (Num 0), LineTo pos (canvas_height st), Stroke]
              else []) @
             [SetStyle StrokeStyle, SetStyle FillStyle, BeginPath, SetStyle LineWidth,
              MoveTo pos tickStart, LineTo pos tickEnd, Stroke,
              SetStyle LineWidth, SetStyle FillStyle,
              FillText v pos (js_add zeroPos labelOffset)]
         | AxisY \<Rightarrow>
             (let cp = js_sub (canvas_height st) pos in
              (if grid then [SetStyle StrokeStyle, SetStyle FillStyle, BeginPath,
                             MoveTo (Num 0) cp, LineTo (canvas_width st) cp, Stroke]
               else []) @
              [SetStyle StrokeStyle, SetStyle FillStyle, BeginPath, SetStyle LineWidth,
               MoveTo tickStart cp, LineTo tickEnd cp, Stroke,
               SetStyle LineWidth, SetStyle FillStyle,
               FillText v (js_sub zeroPos labelOffset) cp]))"

text \<open>
  \<^verbatim>\<open>for (let value = startTick; value <= endTick; value += interval)\<close>; \<open>None\<close> when the
  loop does not end.
\<close>

partial_function (option) drawTicksLoop ::
  "(jsnum \<Rightarrow> canvas_op list) \<Rightarrow> jsnum \<Rightarrow> jsnum \<Rightarrow> jsnum \<Rightarrow> canvas_op list \<Rightarrow> canvas_op list option" where
  "drawTicksLoop body v endTick step acc =
     (if js_le v endTick then drawTicksLoop body (js_add v step) endTick step (acc @ body v)
      else Some acc)"

text \<open>\<^verbatim>\<open>drawTicks(ctx, params)\<close>.\<close>

definition drawTicks ::
  "plot \<Rightarrow> axis \<Rightarrow> jsnum \<Rightarrow> jsnum \<Rightarrow> jsnum \<Rightarrow> jsnum \<Rightarrow> jsnum option \<Rightarrow> jsnum \<Rightarrow> jsnum \<Rightarrow> bool
     \<Rightarrow> canvas_op list option" where
  "drawTicks st ax min_v max_v zeroPos scale tickInterval tickLen labelOffset grid =
     (let step = (case tickInterval of None \<Rightarrow> calculateTickInterval min_v max_v | Some i \<Rightarrow> i);
          startTick = js_mul (js_ceil (js_div min_v step)) step;
          endTick = js_mul (js_floor (js_div max_v step)) step
      in map_option (\<lambda>ops. [SetStyle TextAlign, SetStyle TextBaseline] @ ops)
           (drawTicksLoop (tickOps st ax min_v zeroPos scale tickLen labelOffset grid)
              startTick endTick step []))"

text \<open>\<^verbatim>\<open>renderAxes()\<close>: the plot after the call and the calls made, \<open>None\<close> when it does not return.\<close>

definition renderAxes :: "plot \<Rightarrow> (plot \<times> canvas_op list) option" where
  "renderAxes st =
     (let pre = [Save, SetStyle StrokeStyle, SetStyle LineWidth, SetStyle Font, SetStyle FillStyle];
          st1 = render_effect st;
          b = the (bounds st1);
          w = canvas_width st1;
          h = canvas_height st1;
          range_x = js_sub (x_max b) (x_min b);
          range_y = js_sub (y_max b) (y_min b)
      in if js_eq range_x (Num 0) \<or> js_eq range_y (Num 0) then Some (st1, pre @ [Restore])
         else
           let scale_x = js_div w range_x;
               scale_y = js_div h range_y;
               zero_x = js_mul (js_sub (Num 0) (x_min b)) scale_x;
               zero_y = js_sub h (js_mul (js_sub (Num 0) (y_min b)) scale_y);
               grid = (gridShow (options st1) \<noteq> Some False)
           in case drawTicks st1 AxisX (x_min b) (x_max b) zero_y scale_x
                     (tickIntervalX (options st1)) (Num 5) (Num 8) grid of
                None \<Rightarrow> None
              | Some ticks_x \<Rightarrow>
                  (case drawTicks st1 AxisY (y_min b) (y_max b) zero_x scale_y
                          (tickIntervalY (options st1)) (Num 5) (Num 8) grid of
                     None \<Rightarrow> None
                   | Some ticks_y \<Rightarrow>
                       Some (st1,
                         pre @ ticks_x @ ticks_y @
                         [SetStyle StrokeStyle, SetStyle LineWidth, SetStyle Font, SetStyle FillStyle] @
                         (if js_ge zero_y (Num 0) \<and> js_le zero_y h
                          then [BeginPath, MoveTo (Num 0) zero_y, LineTo w zero_y, Stroke] else []) @
                         (if js_ge zero_x (Num 0) \<and> js_le zero_x w
                          then [BeginPath, MoveTo zero_x (Num 0), LineTo zero_x h, Stroke] else []) @
                         [Restore])))"

text \<open>
  \<^verbatim>\<open>drawBuffer(key, buffer)\<close> up to and including the range guard. What follows the guard
  (the data by type, then \<^verbatim>\<open>lines\<close>, \<^verbatim>\<open>points\<close> and \<^verbatim>\<open>parametrics\<close>) only issues drawing
  calls from the values in scope there; it is the parameter \<open>paintSeries\<close>, which yields
  \<open>None\<close> when one of its sampling loops does not end.
\<close>

definition drawBuffer ::
  "(plot \<Rightarrow> bounds \<Rightarrow> jsnum \<times> jsnum \<Rightarrow> buffer \<Rightarrow> canvas_op list option)
     \<Rightarrow> plot \<Rightarrow> string \<Rightarrow> buffer \<Rightarrow> canvas_op list option" where
  "drawBuffer paintSeries st key b =
     (if visible b = Some False \<or> map_get (localBufferOption (options st)) key = Some False
      then Some []
      else
        let pre = [Save, SetStyle StrokeStyle, SetStyle FillStyle, SetStyle LineWidth];
            c = drawBounds st b;
            range_x = js_sub (x_max c) (x_min c);
            range_y = js_sub (y_max c) (y_min c)
        in if js_eq range_x (Num 0) \<or> js_eq range_y (Num 0) then Some (pre @ [Restore])
           else map_option (\<lambda>ops. pre @ ops @ [Restore])
                  (paintSeries st c (drawScale c (canvas_width st) (canvas_height st)) b))"

text \<open>
  \<^verbatim>\<open>drawBufferAxis(buffer, key)\<close>. The width of a label, \<^verbatim>\<open>ctx.measureText(v.toFixed(2)).width\<close>,
  comes from the host and is the parameter \<open>measureText\<close>.
\<close>

definition or_default :: "jsnum option \<Rightarrow> jsnum \<Rightarrow> jsnum" where
  "or_default v d = (case v of None \<Rightarrow> d | Some a \<Rightarrow> if js_truthy a then a else d)"

definition yTickOps ::
  "(jsnum \<Rightarrow> jsnum) \<Rightarrow> plot \<Rightarrow> bounds \<Rightarrow> jsnum \<Rightarrow> jsnum \<Rightarrow> jsnum \<Rightarrow> bool \<Rightarrow> jsnum \<Rightarrow> jsnum
     \<Rightarrow> canvas_op list" where
  "yTickOps measureText st c scale_y tickLen labelOffset is_left xPos v =
     (let h = canvas_height st;
          yCanvas = js_sub h (js_mul (js_sub v (y_min c)) scale_y)
      in if js_lt yCanvas (Num 0) \<or> js_gt yCanvas h then []
         else
           let tickEnd = js_sub xPos (if is_left then js_neg tickLen else tickLen);
               labelX = js_add xPos (if is_left then js_sub (js_neg tickLen) labelOffset
                                     else js_add tickLen labelOffset);
               textWidth = js_add (measureText v) labelOffset;
               adjustedLabelX =
                 (if is_left \<and> js_lt (js_sub labelX textWidth) (Num 0) then textWidth
                  else if \<not> is_left \<and> js_gt (js_add labelX textWidth) (canvas_width st)
                  then js_sub (canvas_width st) textWidth
                  else labelX)
           in [BeginPath, MoveTo xPos yCanvas, LineTo tickEnd yCanvas, Stroke,
               SetStyle TextAlign, FillText v adjustedLabelX yCanvas])"

definition xTickOps ::
  "(jsnum \<Rightarrow> jsnum) \<Rightarrow> plot \<Rightarrow> bounds \<Rightarrow> jsnum \<Rightarrow> jsnum \<Rightarrow> jsnum \<Rightarrow> bool \<Rightarrow> jsnum \<Rightarrow> nat
     \<Rightarrow> nat \<times> jsnum \<Rightarrow> canvas_op list" where
  "xTickOps measureText st c scale_x tickLen labelOffset is_top yPos count iv =
     (let index = fst iv;
          v = snd iv;
          w = canvas_width st;
          xCanvas = js_mul (js_sub v (x_min c)) scale_x
      in if js_lt xCanvas (Num 0) \<or> js_gt xCanvas w then []
         else
           let tickEnd = js_sub yPos (if is_top then js_neg tickLen else tickLen);
               labelY = js_sub yPos
                          (js_mul (if is_top then js_sub (js_neg tickLen) labelOffset
                                   else js_add tickLen labelOffset) (Num 1.5));
               textWidth = measureText v;
               adjustedXCanvas =
                 (if index = 0 \<and> js_lt (js_sub xCanvas (js_div textWidth (Num 2))) (Num 0)
                  then Math_max [xCanvas, Num 0]
                  else if Suc index = count
                          \<and> js_gt (js_add xCanvas (js_div textWidth (Num 2))) w
                  then Math_min [xCanvas, w]
                  else xCanvas)
           in [BeginPath, MoveTo xCanvas yPos, LineTo xCanvas tickEnd, Stroke,
               SetStyle TextAlign, SetStyle TextBaseline, FillText v adjustedXCanvas labelY])"

definition placementOps ::
  "(jsnum \<Rightarrow> jsnum) \<Rightarrow> plot \<Rightarrow> bounds \<Rightarrow> jsnum \<times> jsnum \<Rightarrow> jsnum \<Rightarrow> jsnum
     \<Rightarrow> jsnum list \<Rightarrow> jsnum list \<Rightarrow> placement \<Rightarrow> canvas_op list" where
  "placementOps measureText st c scale tickLen labelOffset xTicks yTicks placement =
     (let w = canvas_width st; h = canvas_height st
      in if placement = Left \<or> placement = Right then
           let xPos = (if placement = Left then Num 0 else w)
           in [SetStyle TextBaseline, BeginPath, MoveTo xPos (Num 0), LineTo xPos h, Stroke] @
              concat (map (yTickOps measureText st c (snd scale) tickLen labelOffset
                             (placement = Left) xPos) yTicks)
         else
           let yPos = (if placement = Top then Num 0 else h)
           in [BeginPath, MoveTo (Num 0) yPos, LineTo w yPos, Stroke] @
              concat (map (xTickOps measureText st c (fst scale) tickLen labelOffset
                             (placement = Top) yPos (length xTicks)) (enumerate 0 xTicks)))"

definition drawBufferAxis :: "(jsnum \<Rightarrow> jsnum) \<Rightarrow> plot \<Rightarrow> buffer \<Rightarrow> string \<Rightarrow> canvas_op list option" where
  "drawBufferAxis measureText st b key =
     (if axisVisible b \<noteq> Some True \<or> axisPlacement b = None then Some []
      else
        let axisPlacements = the (axisPlacement b);
            count = or_default (tickCount b) (Num 10);
            tickLen = or_default (tickLength b) (Num 5);
            labelOffset = or_default (tickLabelOffset b) (Num 8);
            c = (case bounds st of None \<Rightarrow> computeBounds st | Some c \<Rightarrow> c);
            xRange = js_sub (x_max c) (x_min c);
            yRange = js_sub (y_max c) (y_min c);
            scale = (js_div (canvas_width st) xRange, js_div (canvas_height st) yRange)
        in case calculateTickValues (x_min c) (x_max c) count of
             None \<Rightarrow> None
           | Some xTicks \<Rightarrow>
               (case calculateTickValues (y_min c) (y_max c) count of
                  None \<Rightarrow> None
                | Some yTicks \<Rightarrow>
                    Some ([Save, SetStyle StrokeStyle, SetStyle LineWidth, SetStyle Font,
                           SetStyle FillStyle] @
                          concat (map (placementOps measureText st c scale tickLen labelOffset
                                         xTicks yTicks) axisPlacements) @
                          [Restore])))"

text \<open>\<^verbatim>\<open>render()\<close>: clear, axes, then each buffer's series and its own axis.\<close>

fun renderBuffers ::
  "(plot \<Rightarrow> bounds \<Rightarrow> jsnum \<times> jsnum \<Rightarrow> buffer \<Rightarrow> canvas_op list option) \<Rightarrow> (jsnum \<Rightarrow> jsnum)
     \<Rightarrow> plot \<Rightarrow> (string \<times> buffer) list \<Rightarrow> canvas_op list option" where
  "renderBuffers paintSeries measureText st [] = Some []"
| "renderBuffers paintSeries measureText st ((key, b) # rest) =
     (case drawBuffer paintSeries st key b of
        None \<Rightarrow> None
      | Some series \<Rightarrow>
          (case drawBufferAxis measureText st b key of
             None \<Rightarrow> None
           | Some axis_ops \<Rightarrow>
               (case renderBuffers paintSeries measureText st rest of
                  None \<Rightarrow> None
                | Some more_ops \<Rightarrow> Some (series @ axis_ops @ more_ops))))"

definition render ::
  "(plot \<Rightarrow> bounds \<Rightarrow> jsnum \<times> jsnum \<Rightarrow> buffer \<Rightarrow> canvas_op list option) \<Rightarrow> (jsnum \<Rightarrow> jsnum)
     \<Rightarrow> plot \<Rightarrow> (plot \<times> canvas_op list) option" where
  "render paintSeries measureText st =
     (case renderAxes st of
        None \<Rightarrow> None
      | Some (st1, axes_ops) \<Rightarrow>
          (case renderBuffers paintSeries measureText st1 (buffers st1) of
             None \<Rightarrow> None
           | Some buffer_ops \<Rightarrow>
               Some (st1, ClearRect (Num 0) (Num 0) (canvas_width st) (canvas_height st)
                            # axes_ops @ buffer_ops)))"

section \<open>The drag handler and the follow tick\<close>

text \<open>
  \<^verbatim>\<open>onMouseMove(event)\<close>: the drag-pan, which ends in \<^verbatim>\<open>render()\<close> when the render mode is
  \<^verbatim>\<open>auto\<close>. The result is the plot after the call and the calls made on the 2D context,
  \<open>None\<close> when \<^verbatim>\<open>render()\<close> does not return.
\<close>

definition onMouseMove ::
  "(plot \<Rightarrow> bounds \<Rightarrow> jsnum \<times> jsnum \<Rightarrow> buffer \<Rightarrow> canvas_op list option) \<Rightarrow> (jsnum \<Rightarrow> jsnum)
     \<Rightarrow> mouse_event \<Rightarrow> plot \<Rightarrow> (plot \<times> canvas_op list) option" where
  "onMouseMove paintSeries measureText event st =
     (let st1 = ensureBounds st
      in if isDragging st1 then
           let b = the (bounds st1);
               delta_x = dbl_sub (clientX event) (px (lastMousePos st1));
               delta_y = dbl_sub (clientY event) (py (lastMousePos st1));
               range_x = dbl_sub (x_max b) (x_min b);
               range_y = dbl_sub (y_max b) (y_min b);
               deltaData_x = dbl_div (dbl_mul (js_neg delta_x) range_x) (canvas_width st1);
               deltaData_y = dbl_div (dbl_mul delta_y range_y) (canvas_height st1);
               b' = \<lparr> x_min = dbl_add (x_min b) deltaData_x,
                      x_max = dbl_add (x_max b) deltaData_x,
                      y_min = dbl_add (y_min b) deltaData_y,
                      y_max = dbl_add (y_max b) deltaData_y \<rparr>;
               st2 = st1\<lparr>bounds := Some b',
                         lastMousePos := \<lparr> px = clientX event, py = clientY event \<rparr>\<rparr>
           in if renderMode st2 = ''auto'' then render paintSeries measureText st2
              else Some (st2, [])
         else Some (st1, []))"


section \<open>Example states\<close>

text \<open>
  A plot without buffers on a 200 by 100 canvas whose bounding rectangle starts at
  (8, 8), with the constructor's default options and the bounds \<open>x: 0..10\<close>, \<open>y: 0..5\<close>;
  a buffer with no optional field set; a series with the two samples (0, 0) and (10, 5);
  and a hidden series.
\<close>

definition base_options :: plot_options where
  "base_options =
     \<lparr> follow = \<lparr> enabledDefault = False, follow_interval = Num 1000, jumpOffsetX = Num 0,
                    adjustY = ''manual'', disableOnInteraction = False \<rparr>,
       fixedWindowSize = None, localBufferOption = [],
       tickIntervalX = None, tickIntervalY = None, gridShow = Some True \<rparr>"

definition base_plot :: plot where
  "base_plot =
     \<lparr> buffers = [],
       options = base_options,
       canvas_width = Num 200, canvas_height = Num 100,
       bounds = Some \<lparr> x_min = Num 0, x_max = Num 10, y_min = Num 0, y_max = Num 5 \<rparr>,
       normalizeBounds = False, followTimer = None, isDragging = False,
       lastMousePos = \<lparr> px = Num 0, py = Num 0 \<rparr>,
       onFollowStartFunc = None, onFollowStopFunc = None, renderMode = ''auto'',
       parent_clientWidth = Num 200, parent_clientHeight = Num 100,
       rect_left = Num 8, rect_top = Num 8,
       console = [], timers = [], nextTimer = 0, invoked = [] \<rparr>"

definition base_buffer :: buffer where
  "base_buffer =
     \<lparr> data = None, visible = None, null = None, maxDataLength = None,
       discardOptions = None, discardInterval = None, axisVisible = None,
       axisPlacement = None, tickCount = None, tickLength = None, tickLabelOffset = None \<rparr>"

definition two_samples :: buffer where
  "two_samples =
     base_buffer\<lparr>data := Some [\<lparr> px = Num 0, py = Num 0 \<rparr>, \<lparr> px = Num 10, py = Num 5 \<rparr>]\<rparr>"




text \<open>
  A dragging plot with \<^verbatim>\<open>normalizeBounds\<close> set, in \<^verbatim>\<open>auto\<close> render mode, whose bounds
  \<open>0..100\<close> on both axes are wider than its data.
\<close>

definition normalizing_plot :: plot where
  "normalizing_plot =
     base_plot\<lparr>buffers := [(''a'', two_samples)],
                bounds := Some \<lparr> x_min = Num 0, x_max = Num 100, y_min = Num 0, y_max = Num 100 \<rparr>,
                normalizeBounds := True,
                isDragging := True\<rparr>"





text \<open>A buffer with \<^verbatim>\<open>maxDataLength = 100\<close> that has accumulated 150 samples.\<close>

definition long_series :: buffer where
  "long_series =
     base_buffer\<lparr>data := Some (map (\<lambda>i. \<lparr> px = Num (real i), py = Num 0 \<rparr>) [0..<150]),
                  maxDataLength := Some (Num 100)\<rparr>"

text \<open>
  A plot with zero-range bounds and one series without an axis of its own; the same plot
  whose series shows its own axis on the left; a series painter that draws one stroke, and
  a host that measures every label 30 pixels wide.
\<close>

definition point_bounds_plot :: plot where
  "point_bounds_plot =
     base_plot\<lparr>buffers := [(''a'', two_samples)],
                bounds := Some \<lparr> x_min = Num 5, x_max = Num 5, y_min = Num 3, y_max = Num 3 \<rparr>\<rparr>"

definition own_axis_plot :: plot where
  "own_axis_plot =
     base_plot\<lparr>buffers := [(''a'', two_samples\<lparr>axisVisible := Some True,
                                                 axisPlacement := Some [Left]\<rparr>)],
                bounds := Some \<lparr> x_min = Num 5, x_max = Num 5, y_min = Num 3, y_max = Num 3 \<rparr>\<rparr>"

definition one_stroke :: "plot \<Rightarrow> bounds \<Rightarrow> jsnum \<times> jsnum \<Rightarrow> buffer \<Rightarrow> canvas_op list option" where
  "one_stroke st c scale b = Some [BeginPath, Stroke]"

definition fixed_width :: "jsnum \<Rightarrow> jsnum" where
  "fixed_width v = Num 30"

text \<open>A \<^verbatim>\<open>Partial<Buffer>\<close> without fields.\<close>

definition no_fields :: partial_buffer where
  "no_fields =
     \<lparr> new_data = None, new_visible = None, new_null = None, new_maxDataLength = None,
       new_discardOptions = None, new_discardInterval = None, new_axisVisible = None,
       new_axisPlacement = None, new_tickCount = None, new_tickLength = None,
       new_tickLabelOffset = None \<rparr>"

section \<open>Properties of the nice-number ticker\<close>

lemma floor_log10_97: "\<lfloor>log 10 97\<rfloor> = 1"
  by (subst floor_log_eq_powr_iff) auto

lemma floor_log10_25: "\<lfloor>log 10 25\<rfloor> = 1"
  by (subst floor_log_eq_powr_iff) auto

lemma niceNum_97: "niceNum (Num 97) False = Num 100"
  by (simp add: niceNum_def floor_log10_97)

lemma niceNum_25: "niceNum (Num 25) True = Num 20"
  by (simp add: niceNum_def floor_log10_25)

lemma tickSpacing_0_97_5: "tickSpacingOf (Num 0) (Num 97) (Num 5) = Num 20"
  by (simp add: tickSpacingOf_def js_sub_def niceNum_97 niceNum_25)

lemma ticks_0_97_5:
  "calculateTickValues (Num 0) (Num 97) (Num 5)
     = Some [Num 0, Num 20, Num 40, Num 60, Num 80, Num 100]"
  by (simp add: calculateTickValues_def tickSpacing_0_97_5 niceMinOf_def niceMaxOf_def
      tickLoop.simps)

text \<open>
  C3: \<^verbatim>\<open>calculateTickValues(0, 97, 5)\<close> returns an arithmetic sequence with one nice
  spacing, which resolves to 20: the ticks are the multiples \<open>k * 20\<close> for \<open>k\<close> from 0 to
  5, the first is at most 0 and the last at least 97.
\<close>

theorem calculateTickValues_0_97_5:
  "tickSpacingOf (Num 0) (Num 97) (Num 5) = Num 20 \<and>
   calculateTickValues (Num 0) (Num 97) (Num 5) = Some (map (\<lambda>k. Num (real k * 20)) [0..<6]) \<and>
   js_le (hd (the (calculateTickValues (Num 0) (Num 97) (Num 5)))) (Num 0) \<and>
   js_le (Num 97) (last (the (calculateTickValues (Num 0) (Num 97) (Num 5))))"
  by (simp add: tickSpacing_0_97_5 ticks_0_97_5 upt_rec)

lemma niceNum_zero: "niceNum (Num 0) r = Num 0"
  by (simp add: niceNum_def js_signed_inf_def)

lemma tickSpacing_degenerate: "n \<noteq> 1 \<Longrightarrow> tickSpacingOf (Num m) (Num m) (Num n) = Num 0"
  by (simp add: tickSpacingOf_def js_sub_def niceNum_zero)

lemma niceMin_zero_spacing: "niceMinOf (Num m) (Num 0) = NaN"
  by (simp add: niceMinOf_def js_signed_inf_def)

lemma ticks_degenerate: "n \<noteq> 1 \<Longrightarrow> calculateTickValues (Num m) (Num m) (Num n) = Some []"
  by (simp add: calculateTickValues_def tickSpacing_degenerate niceMin_zero_spacing
      tickLoop.simps)

lemma tickSpacing_zero_width:
  "js_ge tc (Num 2) \<Longrightarrow> tickSpacingOf (Num m) (Num m) tc = Num 0"
  by (cases tc) (simp_all add: tickSpacingOf_def js_sub_def js_ge_def niceNum_zero)

text \<open>
  C10: for every finite \<open>m\<close> and every tick count \<open>tc \<ge> 2\<close>,
  \<^verbatim>\<open>calculateTickValues(m, m, tc)\<close> returns, and returns the empty sequence: the tick
  spacing is 0, the start of the loop is \<^verbatim>\<open>NaN\<close>, and the loop body never runs.
\<close>

theorem calculateTickValues_zero_width:
  "js_ge tc (Num 2) \<Longrightarrow>
     tickSpacingOf (Num m) (Num m) tc = Num 0 \<and>
     niceMinOf (Num m) (tickSpacingOf (Num m) (Num m) tc) = NaN \<and>
     calculateTickValues (Num m) (Num m) tc = Some []"
  by (simp add: calculateTickValues_def tickSpacing_zero_width niceMin_zero_spacing
      tickLoop.simps)

theorem calculateTickValues_zero_width_witness:
  "js_ge (Num 10) (Num 2) \<and>
   tickSpacingOf (Num 5) (Num 5) (Num 10) = Num 0 \<and>
   niceMinOf (Num 5) (tickSpacingOf (Num 5) (Num 5) (Num 10)) = NaN \<and>
   calculateTickValues (Num 5) (Num 5) (Num 10) = Some []"
proof -
  have h: "js_ge (Num 10) (Num 2)"
    by (simp add: js_ge_def)
  show ?thesis
    using h calculateTickValues_zero_width [OF h, of 5] by blast
qed

section \<open>Properties of computeBounds\<close>

lemma js_min2_not_NaN: "a \<noteq> NaN \<Longrightarrow> b \<noteq> NaN \<Longrightarrow> js_min2 a b \<noteq> NaN"
  by (simp add: js_min2_def)

lemma js_max2_not_NaN: "a \<noteq> NaN \<Longrightarrow> b \<noteq> NaN \<Longrightarrow> js_max2 a b \<noteq> NaN"
  by (simp add: js_max2_def)

























lemma foldl_min2_Num: "foldl js_min2 (Num a) (map Num rs) = Num (Min (insert a (set rs)))"
proof (induction rs arbitrary: a)
  case Nil
  show ?case by simp
next
  case (Cons r rs)
  have "js_min2 (Num a) (Num r) = Num (min a r)"
    by (simp add: js_min2_def min_def)
  then have "foldl js_min2 (Num a) (map Num (r # rs)) = Num (Min (insert (min a r) (set rs)))"
    by (simp add: Cons.IH)
  also have "Min (insert (min a r) (set rs)) = Min (insert a (set (r # rs)))"
    by (cases "rs = []") (simp_all add: min.assoc)
  finally show ?case .
qed

lemma Math_min_Num: "Math_min (map Num (r # rs)) = Num (Min (set (r # rs)))"
  by (simp add: Math_min_def js_min2_def foldl_min2_Num)

lemma foldl_max2_Num: "foldl js_max2 (Num a) (map Num rs) = Num (Max (insert a (set rs)))"
proof (induction rs arbitrary: a)
  case Nil
  show ?case by simp
next
  case (Cons r rs)
  have "js_max2 (Num a) (Num r) = Num (max a r)"
    by (simp add: js_max2_def max_def)
  then have "foldl js_max2 (Num a) (map Num (r # rs)) = Num (Max (insert (max a r) (set rs)))"
    by (simp add: Cons.IH)
  also have "Max (insert (max a r) (set rs)) = Max (insert a (set (r # rs)))"
    by (cases "rs = []") (simp_all add: max.assoc)
  finally show ?case .
qed

lemma Math_max_Num: "Math_max (map Num (r # rs)) = Num (Max (set (r # rs)))"
  by (simp add: Math_max_def js_max2_def foldl_max2_Num)





section \<open>Properties of double-precision rounding\<close>

lemma round_half_even_error: "\<bar>of_int (round_half_even r) - r\<bar> \<le> 1 / 2"
  unfolding round_half_even_def Let_def by (auto simp: abs_if) linarith+

lemma round_half_even_int: "round_half_even (of_int k) = k"
  by (simp add: round_half_even_def)

lemma ulp_pos: "0 < ulp x"
  by (simp add: ulp_def)

lemma fl_error_ulp: "\<bar>fl x - x\<bar> \<le> ulp x / 2"
proof -
  have "\<bar>of_int (round_half_even (x / ulp x)) - x / ulp x\<bar> \<le> 1 / 2"
    by (rule round_half_even_error)
  then have "\<bar>of_int (round_half_even (x / ulp x)) - x / ulp x\<bar> * ulp x \<le> 1 / 2 * ulp x"
    using ulp_pos [of x] by (intro mult_right_mono) simp_all
  moreover have "(of_int (round_half_even (x / ulp x)) - x / ulp x) * ulp x = fl x - x"
    using ulp_pos [of x] by (simp add: fl_def field_simps)
  then have "\<bar>of_int (round_half_even (x / ulp x)) - x / ulp x\<bar> * ulp x = \<bar>fl x - x\<bar>"
    using ulp_pos [of x] by (metis abs_mult abs_of_pos)
  ultimately show ?thesis by simp
qed

lemma ulp_normal:
  assumes "2 powi (- 1022) \<le> \<bar>x\<bar>"
  shows "ulp x \<le> \<bar>x\<bar> / 2 ^ 52"
proof -
  have "0 < (2::real) powi (- 1022)" by simp
  with assms have x: "x \<noteq> 0" "0 < \<bar>x\<bar>" by auto
  let ?e = "\<lfloor>log 2 \<bar>x\<bar>\<rfloor>"
  have "log 2 (2 powi (- 1022)) \<le> log 2 \<bar>x\<bar>"
    using assms x by (subst log_le_cancel_iff) (simp_all add: power_int_def)
  then have "- 1022 \<le> log 2 \<bar>x\<bar>"
    by (simp add: power_int_def log_divide log_nat_power)
  then have e: "- 1022 \<le> ?e" by linarith
  have "2 powr of_int ?e \<le> 2 powr log 2 \<bar>x\<bar>"
    by (intro powr_mono) simp_all
  then have le: "2 powi ?e \<le> \<bar>x\<bar>"
    using x by (simp add: powr_real_of_int')
  have "ulp_exponent x = ?e - 52"
    using x e by (simp add: ulp_exponent_def)
  then have "ulp x = 2 powi (?e - 52)"
    by (simp only: ulp_def)
  also have "\<dots> = 2 powi ?e / 2 ^ 52"
    by (simp add: power_int_diff)
  also have "\<dots> \<le> \<bar>x\<bar> / 2 ^ 52"
    using le by (simp add: divide_right_mono)
  finally show ?thesis .
qed

lemma ulp_subnormal:
  assumes "\<bar>x\<bar> < 2 powi (- 1022)"
  shows "ulp x = 2 powi (- 1074)"
proof (cases "x = 0")
  case True
  then show ?thesis by (simp add: ulp_def ulp_exponent_def)
next
  case False
  then have x: "0 < \<bar>x\<bar>" by simp
  have "log 2 \<bar>x\<bar> < log 2 (2 powi (- 1022))"
    using assms x by (subst log_less_cancel_iff) (simp_all add: power_int_def)
  then have "log 2 \<bar>x\<bar> < - 1022"
    by (simp add: power_int_def log_divide log_nat_power)
  then have "\<lfloor>log 2 \<bar>x\<bar>\<rfloor> \<le> - 1022" by linarith
  then have "ulp_exponent x = - 1074"
    using False by (simp add: ulp_exponent_def)
  then show ?thesis
    by (simp only: ulp_def)
qed

lemma fl_error: "\<bar>fl x - x\<bar> \<le> unit_roundoff * \<bar>x\<bar> + half_tiny"
proof (cases "2 powi (- 1022) \<le> \<bar>x\<bar>")
  case True
  have "\<bar>fl x - x\<bar> \<le> ulp x / 2" by (rule fl_error_ulp)
  also have "\<dots> \<le> (\<bar>x\<bar> / 2 ^ 52) / 2"
    using ulp_normal [OF True] by simp
  also have "\<dots> = unit_roundoff * \<bar>x\<bar>"
    by (simp add: unit_roundoff_def)
  finally show ?thesis
    by (simp add: half_tiny_def add_increasing2)
next
  case False
  then have u: "ulp x = 2 powi (- 1074)"
    by (intro ulp_subnormal) simp
  have "\<bar>fl x - x\<bar> \<le> ulp x / 2" by (rule fl_error_ulp)
  also have "\<dots> = half_tiny"
  proof -
    have "(2::real) powi (- 1074) = 2 powi (- 1075 + 1)" by simp
    also have "\<dots> = 2 powi (- 1075) * 2"
      by (subst power_int_add) simp_all
    finally show ?thesis by (simp add: u half_tiny_def)
  qed
  finally show ?thesis
    by (simp add: unit_roundoff_def add_increasing)
qed


lemma floor_log2:
  assumes "2 powi e \<le> \<bar>x\<bar>" "\<bar>x\<bar> < 2 powi (e + 1)"
  shows "\<lfloor>log 2 \<bar>x\<bar>\<rfloor> = e"
proof -
  have "0 < (2::real) powi e" by simp
  with assms have x: "0 < \<bar>x\<bar>" by linarith
  have "2 powr of_int e \<le> \<bar>x\<bar>"
    using assms by (simp add: powr_real_of_int')
  moreover have "\<bar>x\<bar> < 2 powr (of_int e + 1)"
    using assms powr_real_of_int' [of 2 "e + 1"] by simp
  ultimately show ?thesis
    using x by (subst floor_log_eq_powr_iff) simp_all
qed

lemma fl_eval:
  assumes "2 powi e \<le> \<bar>x\<bar>" "\<bar>x\<bar> < 2 powi (e + 1)" "- 1022 \<le> e"
  shows "fl x = of_int (round_half_even (x / 2 powi (e - 52))) * 2 powi (e - 52)"
proof -
  have "0 < (2::real) powi e" by simp
  with assms have "0 < \<bar>x\<bar>" by linarith
  then have x: "x \<noteq> 0" by simp
  have "ulp_exponent x = e - 52"
    using x assms(3) floor_log2 [OF assms(1,2)] by (simp add: ulp_exponent_def)
  then show ?thesis
    by (simp only: fl_def ulp_def)
qed

lemma fl_exact: "x / ulp x = of_int n \<Longrightarrow> fl x = x"
  using ulp_pos [of x] by (simp add: fl_def round_half_even_int) (simp add: field_simps)

lemma fl_0: "fl 0 = 0"
  by (simp add: fl_def round_half_even_def)

lemma round_half_even_near: "\<bar>r - of_int n\<bar> < 1/2 \<Longrightarrow> round_half_even r = n"
proof -
  assume a: "\<bar>r - of_int n\<bar> < 1/2"
  show ?thesis
  proof (cases "of_int n \<le> r")
    case True
    with a have f: "\<lfloor>r\<rfloor> = n" by (intro floor_unique) (auto simp: abs_if split: if_splits)
    with a True show ?thesis by (simp add: round_half_even_def Let_def)
  next
    case False
    with a have f: "\<lfloor>r\<rfloor> = n - 1" by (intro floor_unique) (auto simp: abs_if split: if_splits)
    with a False show ?thesis by (auto simp: round_half_even_def Let_def abs_if split: if_splits)
  qed
qed




lemma fl_near:
  fixes k :: nat
  assumes "2 ^ 52 \<le> \<bar>x\<bar> * 2 ^ k" "\<bar>x\<bar> * 2 ^ k < 2 ^ 53" "k \<le> 1074"
    and "\<bar>x * 2 ^ k - of_int n\<bar> < 1/2"
  shows "fl x = of_int n / 2 ^ k"
proof -
  have p: "(2::real) powi (52 - int k) = 2 ^ 52 / 2 ^ k"
    by (simp add: power_int_diff)
  have q: "(2::real) powi (52 - int k + 1) = 2 ^ 53 / 2 ^ k"
    by (simp add: power_int_diff power_int_add)
  have a: "2 powi (52 - int k) \<le> \<bar>x\<bar>"
    using assms(1) by (simp add: p field_simps)
  have b: "\<bar>x\<bar> < 2 powi (52 - int k + 1)"
    by (subst q) (use assms(2) in \<open>simp add: field_simps\<close>)
  have c: "- 1022 \<le> 52 - int k" using assms(3) by simp
  have d: "(2::real) powi (52 - int k - 52) = 1 / 2 ^ k"
    by (simp add: power_int_minus field_simps)
  show ?thesis
    unfolding fl_eval [OF a b c] d
    using round_half_even_near [OF assms(4)] by simp
qed

lemma fl_dyadic:
  fixes k :: nat
  assumes "\<bar>n\<bar> < 2 ^ 53" "k \<le> 1074"
  shows "fl (of_int n / 2 ^ k) = of_int n / 2 ^ k"
proof (cases "n = 0")
  case True
  then show ?thesis by (simp add: fl_0)
next
  case False
  let ?x = "real_of_int n / 2 ^ k"
  let ?e = "\<lfloor>log 2 \<bar>?x\<bar>\<rfloor>"
  have x0: "0 < \<bar>?x\<bar>" using False by simp
  have "\<bar>real_of_int n\<bar> < 2 ^ 53" using assms(1) by (simp flip: of_int_abs)
  then have "\<bar>?x\<bar> < 2 ^ 53 / 2 ^ k"
    by (simp add: divide_strict_right_mono)
  also have "\<dots> = 2 powr (53 - real k)"
    by (simp add: powr_diff powr_realpow)
  finally have "log 2 \<bar>?x\<bar> < 53 - real k"
    using x0 by (subst log_less_iff) simp_all
  then have "?e < 53 - int k" by linarith
  then have e: "max ?e (- 1022) - 52 \<le> - int k" using assms(2) by simp
  define m where "m = nat (- int k - (max ?e (- 1022) - 52))"
  have ue: "ulp_exponent ?x = - int k - int m"
    using False e by (simp add: ulp_exponent_def m_def)
  have "ulp ?x = 2 powi (- int k - int m)" by (simp only: ulp_def ue)
  also have "\<dots> = 1 / (2 ^ k * 2 ^ m)"
    by (simp add: power_int_diff power_int_minus field_simps)
  finally have "?x / ulp ?x = of_int (n * 2 ^ m)" by simp
  then show ?thesis by (rule fl_exact)
qed

lemma fl_int:
  assumes "\<bar>k\<bar> < 2 ^ 53"
  shows "fl (of_int k) = of_int k"
  using fl_dyadic [OF assms, of 0] by simp

lemma fl_abs_le: "\<bar>fl x\<bar> \<le> \<bar>x\<bar> + (unit_roundoff * \<bar>x\<bar> + half_tiny)"
  using fl_error [of x] by linarith

lemma fl_pow2:
  assumes "- 1022 \<le> e"
  shows "fl (2 powi e) = 2 powi e"
proof -
  have a: "2 powi e \<le> \<bar>(2::real) powi e\<bar>" by simp
  have b: "\<bar>(2::real) powi e\<bar> < 2 powi (e + 1)"
    by (simp add: power_int_add)
  have "(2::real) powi e / 2 powi (e - 52) = 2 powi 52"
    by (simp add: power_int_diff)
  also have "\<dots> = of_int (2 ^ 52)" by simp
  finally have c: "(2::real) powi e / 2 powi (e - 52) = of_int (2 ^ 52)" .
  have "fl (2 powi e) = of_int (2 ^ 52) * 2 powi (e - 52)"
    unfolding fl_eval [OF a b assms] c round_half_even_int ..
  also have "\<dots> = 2 powi e"
    by (simp add: power_int_diff)
  finally show ?thesis .
qed

lemma half_tiny_le_unit: "half_tiny \<le> unit_roundoff"
proof -
  have "(2::real) powi (- 1075) \<le> 2 powi (- 53)"
    by (rule power_int_increasing) simp_all
  then show ?thesis by (simp add: half_tiny_def unit_roundoff_def power_int_minus field_simps)
qed

lemma half_tiny_normal:
  assumes "2 powi (- 1022) \<le> M"
  shows "half_tiny \<le> unit_roundoff * M"
proof -
  have "half_tiny = unit_roundoff * 2 powi (- 1022)"
  proof -
    have "(2::real) powi (- 1075) = 2 powi (- 53 + - 1022)" by simp
    also have "\<dots> = 2 powi (- 53) * 2 powi (- 1022)"
      by (subst power_int_add) simp_all
    finally show ?thesis by (simp add: half_tiny_def unit_roundoff_def power_int_minus)
  qed
  also have "\<dots> \<le> unit_roundoff * M"
    using assms by (intro mult_left_mono) (simp_all add: unit_roundoff_def)
  finally show ?thesis .
qed

lemma half_tiny_times:
  assumes "0 \<le> M" "M \<le> 2 powi 1022"
  shows "half_tiny * M \<le> unit_roundoff"
proof -
  have "half_tiny * M \<le> half_tiny * 2 powi 1022"
    using assms by (intro mult_left_mono) (simp_all add: half_tiny_def)
  also have "\<dots> = unit_roundoff"
  proof -
    have "(2::real) powi (- 1075) * 2 powi 1022 = 2 powi (- 1075 + 1022)"
      by (subst power_int_add) simp_all
    then show ?thesis by (simp add: half_tiny_def unit_roundoff_def power_int_minus)
  qed
  finally show ?thesis .
qed

lemma unit_roundoff_small: "0 < unit_roundoff" "unit_roundoff \<le> 1 / 64"
  by (simp_all add: unit_roundoff_def)

lemma half_tiny_pos: "0 < half_tiny"
  by (simp add: half_tiny_def)

text \<open>The error of one rounding when the operand is at most \<open>c * M\<close>.\<close>

lemma fl_err_c:
  assumes "\<bar>z\<bar> \<le> c * M" "half_tiny \<le> unit_roundoff * M"
  shows "\<bar>fl z - z\<bar> \<le> c * (unit_roundoff * M) + unit_roundoff * M"
proof -
  have "unit_roundoff * \<bar>z\<bar> \<le> unit_roundoff * (c * M)"
    using assms(1) unit_roundoff_small(1) by (intro mult_left_mono) simp_all
  with fl_error [of z] assms(2) show ?thesis
    by (simp add: algebra_simps)
qed

text \<open>The error of one rounding, seen through a factor \<open>k\<close>.\<close>

lemma fl_scaled:
  "\<bar>fl z * k - z * k\<bar> \<le> unit_roundoff * \<bar>z * k\<bar> + half_tiny * \<bar>k\<bar>"
proof -
  have "\<bar>fl z * k - z * k\<bar> = \<bar>fl z - z\<bar> * \<bar>k\<bar>"
    by (simp add: abs_mult flip: left_diff_distrib)
  also have "\<dots> \<le> (unit_roundoff * \<bar>z\<bar> + half_tiny) * \<bar>k\<bar>"
    by (intro mult_right_mono fl_error) simp
  finally show ?thesis by (simp add: algebra_simps abs_mult)
qed

lemma fl_scaled_c:
  assumes "\<bar>z * k\<bar> \<le> c * M" "\<bar>k\<bar> \<le> 3 * M"
  shows "\<bar>fl z * k - z * k\<bar> \<le> c * (unit_roundoff * M) + 3 * (unit_roundoff * M)"
proof -
  have "0 \<le> M" using assms(2) by linarith
  have a: "unit_roundoff * \<bar>z * k\<bar> \<le> unit_roundoff * (c * M)"
    using assms(1) unit_roundoff_small(1) by (intro mult_left_mono) simp_all
  have "half_tiny * \<bar>k\<bar> \<le> unit_roundoff * (3 * M)"
    using assms(2) half_tiny_le_unit half_tiny_pos \<open>0 \<le> M\<close> by (intro mult_mono) simp_all
  with a fl_scaled [of z k] show ?thesis
    by (simp add: algebra_simps)
qed

text \<open>A pixel delta \<open>d\<close> of at most the canvas size \<open>W\<close> turned into a data delta.\<close>

lemma fl_mul_div:
  assumes "1 \<le> W" "\<bar>d\<bar> \<le> W" "\<bar>r\<bar> \<le> c * M" "half_tiny \<le> unit_roundoff * M"
  shows "\<bar>d * r / W\<bar> \<le> c * M"
    and "\<bar>fl (d * r) / W - d * r / W\<bar> \<le> c * (unit_roundoff * M) + unit_roundoff * M"
proof -
  have W: "0 < W" using assms(1) by linarith
  have "\<bar>d * r / W\<bar> = (\<bar>d\<bar> / W) * \<bar>r\<bar>"
    using W by (simp add: abs_mult)
  also have "\<dots> \<le> 1 * \<bar>r\<bar>"
    using assms(2) W by (intro mult_right_mono) simp_all
  finally show a: "\<bar>d * r / W\<bar> \<le> c * M" using assms(3) by simp
  have "\<bar>fl (d * r) * (1 / W) - d * r * (1 / W)\<bar>
          \<le> unit_roundoff * \<bar>d * r * (1 / W)\<bar> + half_tiny * \<bar>1 / W\<bar>"
    by (rule fl_scaled)
  moreover have "unit_roundoff * \<bar>d * r * (1 / W)\<bar> \<le> unit_roundoff * (c * M)"
    using a unit_roundoff_small(1) by (intro mult_left_mono) simp_all
  moreover have "half_tiny * \<bar>1 / W\<bar> \<le> half_tiny * 1"
    using W assms(1) half_tiny_pos by (intro mult_left_mono) simp_all
  ultimately show "\<bar>fl (d * r) / W - d * r / W\<bar> \<le> c * (unit_roundoff * M) + unit_roundoff * M"
    using assms(4) by (simp add: algebra_simps)
qed

text \<open>
  One axis of a drag by \<open>d\<close> followed by a drag by \<open>- d\<close>, in double arithmetic: the
  bounds \<open>x0\<close>, \<open>x1\<close> become \<open>a0\<close>, \<open>a1\<close> and then \<open>b0\<close>, \<open>b1\<close>.
\<close>

lemma pan_error:
  fixes x0 x1 d W M :: real
  assumes M: "2 powi (- 1022) \<le> M" and x: "\<bar>x0\<bar> \<le> M" "\<bar>x1\<bar> \<le> M"
    and W: "1 \<le> W" and d: "\<bar>d\<bar> \<le> W"
  defines "r \<equiv> fl (x1 - x0)"
  defines "dd \<equiv> fl (fl (d * r) / W)"
  defines "a0 \<equiv> fl (x0 + dd)" and "a1 \<equiv> fl (x1 + dd)"
  defines "r' \<equiv> fl (a1 - a0)"
  defines "dd' \<equiv> fl (fl (- d * r') / W)"
  defines "b0 \<equiv> fl (a0 + dd')" and "b1 \<equiv> fl (a1 + dd')"
  shows "\<bar>(a1 - a0) - (x1 - x0)\<bar> \<le> M / 2 ^ 49"
    and "\<bar>b0 - x0\<bar> \<le> M / 2 ^ 47" and "\<bar>b1 - x1\<bar> \<le> M / 2 ^ 47"
proof -
  define U where "U = unit_roundoff * M"
  have M0: "0 < M" using M by (smt (verit) zero_less_power_int)
  have h: "half_tiny \<le> unit_roundoff * M" by (rule half_tiny_normal [OF M])
  have U0: "0 \<le> U" using M0 by (simp add: U_def unit_roundoff_def)
  have U64: "64 * U \<le> M"
    using unit_roundoff_small(2) M0 mult_right_mono [of unit_roundoff "1 / 64" M]
    by (simp add: U_def)
  have UM: "U = M / 2 ^ 53" by (simp add: U_def unit_roundoff_def)
  have md: "\<bar>- d\<bar> \<le> W" using d by simp
  \<comment> \<open>first drag\<close>
  have "\<bar>x1 - x0\<bar> \<le> 2 * M" using x by linarith
  from fl_err_c [OF this h, folded U_def]
  have r1: "\<bar>r - (x1 - x0)\<bar> \<le> 3 * U"
    unfolding r_def by linarith
  have r2: "\<bar>r\<bar> \<le> 3 * M" using r1 x U64 U0 by linarith
  note q = fl_mul_div [OF W d r2 h, folded U_def]
  have q2: "\<bar>fl (d * r) / W\<bar> \<le> 4 * M" using q U64 U0 by linarith
  have dd1: "\<bar>dd - fl (d * r) / W\<bar> \<le> 5 * U"
    unfolding dd_def using fl_err_c [OF q2 h, folded U_def] by linarith
  have dd2: "\<bar>dd - d * r / W\<bar> \<le> 9 * U"
    using dd1 q(2) by linarith
  have dd3: "\<bar>dd\<bar> \<le> 4 * M" using dd2 q(1) U64 U0 by linarith
  have "\<bar>x0 + dd\<bar> \<le> 5 * M" using x dd3 by linarith
  from fl_err_c [OF this h, folded U_def]
  have a0e: "\<bar>a0 - (x0 + dd)\<bar> \<le> 6 * U"
    unfolding a0_def by linarith
  have "\<bar>x1 + dd\<bar> \<le> 5 * M" using x dd3 by linarith
  from fl_err_c [OF this h, folded U_def]
  have a1e: "\<bar>a1 - (x1 + dd)\<bar> \<le> 6 * U"
    unfolding a1_def by linarith
  have w: "\<bar>(a1 - a0) - (x1 - x0)\<bar> \<le> 12 * U" using a0e a1e by linarith
  show "\<bar>(a1 - a0) - (x1 - x0)\<bar> \<le> M / 2 ^ 49"
    using w M0 by (simp add: UM)
  \<comment> \<open>second drag\<close>
  have w2: "\<bar>a1 - a0\<bar> \<le> 3 * M" using w x U64 U0 by linarith
  have r'1: "\<bar>r' - (a1 - a0)\<bar> \<le> 4 * U"
    unfolding r'_def using fl_err_c [OF w2 h, folded U_def] by linarith
  have r'2: "\<bar>r'\<bar> \<le> 4 * M" using r'1 w2 U64 U0 by linarith
  have rr: "\<bar>r - r'\<bar> \<le> 19 * U" using r1 r'1 w by linarith
  note q' = fl_mul_div [OF W md r'2 h, folded U_def]
  have q'2: "\<bar>fl (- d * r') / W\<bar> \<le> 5 * M"
    using q' U64 U0 by linarith
  have dd'1: "\<bar>dd' - fl (- d * r') / W\<bar> \<le> 6 * U"
    unfolding dd'_def using fl_err_c [OF q'2 h, folded U_def] by linarith
  have dd'2: "\<bar>dd' - (- d * r' / W)\<bar> \<le> 11 * U"
    using dd'1 q'(2) by linarith
  have dd'3: "\<bar>dd'\<bar> \<le> 5 * M" using dd'2 q'(1) U64 U0 by linarith
  have "\<bar>d * (r - r') / W\<bar> = (\<bar>d\<bar> / W) * \<bar>r - r'\<bar>"
    using W by (simp add: abs_mult)
  also have "\<dots> \<le> 1 * \<bar>r - r'\<bar>"
    using d W by (intro mult_right_mono) simp_all
  finally have c: "\<bar>d * (r - r') / W\<bar> \<le> 19 * U" using rr by simp
  have "dd + dd' = (dd - d * r / W) + (dd' - (- d * r' / W)) + d * (r - r') / W"
    by (simp add: algebra_simps diff_divide_distrib)
  then have s: "\<bar>dd + dd'\<bar> \<le> 39 * U" using dd2 dd'2 c by linarith
  have a0b: "\<bar>a0\<bar> \<le> 6 * M" using a0e x dd3 U64 U0 by linarith
  have a1b: "\<bar>a1\<bar> \<le> 6 * M" using a1e x dd3 U64 U0 by linarith
  have "\<bar>a0 + dd'\<bar> \<le> 11 * M" using a0b dd'3 by linarith
  from fl_err_c [OF this h, folded U_def]
  have b0e: "\<bar>b0 - (a0 + dd')\<bar> \<le> 12 * U"
    unfolding b0_def by linarith
  have "\<bar>a1 + dd'\<bar> \<le> 11 * M" using a1b dd'3 by linarith
  from fl_err_c [OF this h, folded U_def]
  have b1e: "\<bar>b1 - (a1 + dd')\<bar> \<le> 12 * U"
    unfolding b1_def by linarith
  have "\<bar>b0 - x0\<bar> \<le> 57 * U" using b0e a0e s by linarith
  then show "\<bar>b0 - x0\<bar> \<le> M / 2 ^ 47" using M0 by (simp add: UM)
  have "\<bar>b1 - x1\<bar> \<le> 57 * U" using b1e a1e s by linarith
  then show "\<bar>b1 - x1\<bar> \<le> M / 2 ^ 47" using M0 by (simp add: UM)
qed

text \<open>
  The part the two axes of the round trip share: a coordinate \<open>x\<close> is taken relative to
  the lower bound, giving \<open>d\<close>, and multiplied by the scale \<open>W / r\<close>; \<open>k\<close> is \<open>r / W\<close>.
\<close>

lemma to_pixel_error:
  fixes x x0 x1 W M :: real
  assumes M: "2 powi (- 1022) \<le> M" "M \<le> 2 powi 1022"
    and x: "\<bar>x\<bar> \<le> M" "\<bar>x0\<bar> \<le> M" "\<bar>x1\<bar> \<le> M"
    and W: "1 \<le> W"
  defines "r \<equiv> fl (x1 - x0)"
  assumes r: "r \<noteq> 0"
  defines "d \<equiv> fl (fl x - x0)"
  defines "z \<equiv> fl (d * fl (W / r))"
  shows "\<bar>r\<bar> \<le> 3 * M" and "\<bar>r / W\<bar> \<le> 3 * M"
    and "\<bar>d - (x - x0)\<bar> \<le> 6 * (unit_roundoff * M)"
    and "\<bar>z * (r / W) - d\<bar> \<le> 19 * (unit_roundoff * M)"
proof -
  define U where "U = unit_roundoff * M"
  define k where "k = r / W"
  have M0: "0 < M" using M(1) by (smt (verit) zero_less_power_int)
  have h: "half_tiny \<le> unit_roundoff * M" by (rule half_tiny_normal [OF M(1)])
  have U0: "0 \<le> U" using M0 by (simp add: U_def unit_roundoff_def)
  have U64: "64 * U \<le> M"
    using unit_roundoff_small(2) M0 mult_right_mono [of unit_roundoff "1 / 64" M]
    by (simp add: U_def)
  have W0: "0 < W" using W by linarith
  have "\<bar>x\<bar> \<le> 1 * M" using x by simp
  from fl_err_c [OF this h, folded U_def]
  have d1: "\<bar>fl x - x\<bar> \<le> 2 * U" by linarith
  have d1b: "\<bar>fl x - x0\<bar> \<le> 3 * M" using d1 x U64 U0 by linarith
  have d2: "\<bar>d - (fl x - x0)\<bar> \<le> 4 * U"
    unfolding d_def using fl_err_c [OF d1b h, folded U_def] by linarith
  show d3: "\<bar>d - (x - x0)\<bar> \<le> 6 * (unit_roundoff * M)"
    unfolding U_def [symmetric] using d1 d2 by linarith
  have d4: "\<bar>d\<bar> \<le> 3 * M" using d3 [folded U_def] x U64 U0 by linarith
  have "\<bar>x1 - x0\<bar> \<le> 2 * M" using x by linarith
  from fl_err_c [OF this h, folded U_def]
  have r1: "\<bar>r - (x1 - x0)\<bar> \<le> 3 * U"
    unfolding r_def by linarith
  show r2: "\<bar>r\<bar> \<le> 3 * M" using r1 x U64 U0 by linarith
  have "\<bar>k\<bar> = \<bar>r\<bar> / W" using W0 by (simp add: k_def)
  also have "\<dots> \<le> \<bar>r\<bar> / 1" using W by (intro divide_left_mono) simp_all
  finally have k1: "\<bar>k\<bar> \<le> 3 * M" using r2 by simp
  then show "\<bar>r / W\<bar> \<le> 3 * M" by (simp only: k_def)
  \<comment> \<open>the rounded scale times \<open>k\<close> is close to one\<close>
  have one: "W / r * k = 1" using r W0 by (simp add: k_def)
  have "half_tiny * \<bar>k\<bar> \<le> half_tiny * (3 * M)"
    using k1 half_tiny_pos by (intro mult_left_mono) simp_all
  also have "\<dots> \<le> 3 * unit_roundoff"
    using half_tiny_times [OF less_imp_le [OF M0] M(2)] by simp
  finally have k2: "half_tiny * \<bar>k\<bar> \<le> 3 * unit_roundoff" .
  have "\<bar>fl (W / r) * k - W / r * k\<bar> \<le> unit_roundoff * \<bar>W / r * k\<bar> + half_tiny * \<bar>k\<bar>"
    by (rule fl_scaled)
  then have "\<bar>fl (W / r) * k - 1\<bar> \<le> unit_roundoff * \<bar>1\<bar> + half_tiny * \<bar>k\<bar>"
    unfolding one .
  then have "\<bar>fl (W / r) * k - 1\<bar> \<le> 4 * unit_roundoff"
    using k2 by simp
  then have "\<bar>d\<bar> * \<bar>fl (W / r) * k - 1\<bar> \<le> (3 * M) * (4 * unit_roundoff)"
    using d4 by (intro mult_mono) simp_all
  then have s1: "\<bar>d * (fl (W / r) * k) - d\<bar> \<le> 12 * U"
    by (simp add: U_def algebra_simps flip: abs_mult)
  have i: "d * fl (W / r) * k = d * (fl (W / r) * k)" by simp
  have s2: "\<bar>d * fl (W / r) * k\<bar> \<le> 4 * M"
    unfolding i using s1 d4 U64 U0 by linarith
  have "\<bar>z * k - d * fl (W / r) * k\<bar> \<le> 7 * U"
    unfolding z_def using fl_scaled_c [OF s2 k1, folded U_def] by linarith
  then have "\<bar>z * k - d\<bar> \<le> 19 * U"
    unfolding i using s1 by linarith
  then show "\<bar>z * (r / W) - d\<bar> \<le> 19 * (unit_roundoff * M)"
    by (simp only: k_def U_def)
qed

text \<open>
  The horizontal round trip in double arithmetic: data to pixel as \<^verbatim>\<open>drawBuffer\<close> computes
  it, pixel to data as \<^verbatim>\<open>getMousePlotPosition\<close> computes it.
\<close>

lemma round_trip_x:
  fixes x x0 x1 W M :: real
  assumes M: "2 powi (- 1022) \<le> M" "M \<le> 2 powi 1022"
    and x: "\<bar>x\<bar> \<le> M" "\<bar>x0\<bar> \<le> M" "\<bar>x1\<bar> \<le> M"
    and W: "1 \<le> W"
  defines "r \<equiv> fl (x1 - x0)"
  assumes r: "r \<noteq> 0"
  defines "d \<equiv> fl (fl x - x0)"
  defines "p \<equiv> fl (d * fl (W / r))"
  shows "\<bar>fl (x0 + fl (fl (p / W) * r)) - x\<bar> \<le> M / 2 ^ 46"
proof -
  define U where "U = unit_roundoff * M"
  have M0: "0 < M" using M(1) by (smt (verit) zero_less_power_int)
  have h: "half_tiny \<le> unit_roundoff * M" by (rule half_tiny_normal [OF M(1)])
  have U0: "0 \<le> U" using M0 by (simp add: U_def unit_roundoff_def)
  have U64: "64 * U \<le> M"
    using unit_roundoff_small(2) M0 mult_right_mono [of unit_roundoff "1 / 64" M]
    by (simp add: U_def)
  have UM: "U = M / 2 ^ 53" by (simp add: U_def unit_roundoff_def)
  have e: "\<bar>r\<bar> \<le> 3 * M" "\<bar>r / W\<bar> \<le> 3 * M" "\<bar>d - (x - x0)\<bar> \<le> 6 * U"
      "\<bar>p * (r / W) - d\<bar> \<le> 19 * U"
    unfolding p_def d_def r_def U_def by (rule to_pixel_error [OF M x W r [unfolded r_def]])+
  have d4: "\<bar>d\<bar> \<le> 3 * M" using e(3) x U64 U0 by linarith
  have i0: "p / W * r = p * (r / W)" by simp
  have p1: "\<bar>p / W * r\<bar> \<le> 4 * M" unfolding i0 using e(4) d4 U64 U0 by linarith
  have t1: "\<bar>fl (p / W) * r - p / W * r\<bar> \<le> 7 * U"
    using fl_scaled_c [OF p1 e(1), folded U_def] by linarith
  have t2: "\<bar>fl (p / W) * r - d\<bar> \<le> 26 * U" using t1 e(4) unfolding i0 by linarith
  have t3: "\<bar>fl (p / W) * r\<bar> \<le> 4 * M" using t2 d4 U64 U0 by linarith
  have m1: "\<bar>fl (fl (p / W) * r) - fl (p / W) * r\<bar> \<le> 5 * U"
    using fl_err_c [OF t3 h, folded U_def] by linarith
  have m2: "\<bar>x0 + fl (fl (p / W) * r)\<bar> \<le> 6 * M" using m1 t3 x U64 U0 by linarith
  have "\<bar>fl (x0 + fl (fl (p / W) * r)) - (x0 + fl (fl (p / W) * r))\<bar> \<le> 7 * U"
    using fl_err_c [OF m2 h, folded U_def] by linarith
  then have "\<bar>fl (x0 + fl (fl (p / W) * r)) - x\<bar> \<le> 44 * U"
    using m1 t2 e(3) by linarith
  then show ?thesis using M0 by (simp add: UM)
qed

text \<open>The vertical round trip, where the pixel is counted from the top of the canvas.\<close>

lemma round_trip_y:
  fixes y y0 y1 H M :: real
  assumes M: "2 powi (- 1022) \<le> M" "M \<le> 2 powi 1022"
    and y: "\<bar>y\<bar> \<le> M" "\<bar>y0\<bar> \<le> M" "\<bar>y1\<bar> \<le> M"
    and H: "1 \<le> H"
  defines "r \<equiv> fl (y1 - y0)"
  assumes r: "r \<noteq> 0"
  defines "d \<equiv> fl (fl y - y0)"
  defines "z \<equiv> fl (d * fl (H / r))"
  defines "p \<equiv> fl (H - z)"
  shows "\<bar>fl (y0 + fl (fl (1 - fl (p / H)) * r)) - y\<bar> \<le> M / 2 ^ 46"
proof -
  define U where "U = unit_roundoff * M"
  define t where "t = fl (p / H)"
  have M0: "0 < M" using M(1) by (smt (verit) zero_less_power_int)
  have h: "half_tiny \<le> unit_roundoff * M" by (rule half_tiny_normal [OF M(1)])
  have U0: "0 \<le> U" using M0 by (simp add: U_def unit_roundoff_def)
  have U64: "64 * U \<le> M"
    using unit_roundoff_small(2) M0 mult_right_mono [of unit_roundoff "1 / 64" M]
    by (simp add: U_def)
  have UM: "U = M / 2 ^ 53" by (simp add: U_def unit_roundoff_def)
  have H0: "0 < H" using H by linarith
  have e: "\<bar>r\<bar> \<le> 3 * M" "\<bar>r / H\<bar> \<le> 3 * M" "\<bar>d - (y - y0)\<bar> \<le> 6 * U"
      "\<bar>z * (r / H) - d\<bar> \<le> 19 * U"
    unfolding z_def d_def r_def U_def by (rule to_pixel_error [OF M y H r [unfolded r_def]])+
  have d4: "\<bar>d\<bar> \<le> 3 * M" using e(3) y U64 U0 by linarith
  define q where "q = z * (r / H)"
  have e4: "\<bar>q - d\<bar> \<le> 19 * U" using e(4) by (simp only: q_def)
  have z1: "\<bar>q\<bar> \<le> 4 * M" using e4 d4 U64 U0 by linarith
  have i1: "(H - z) * (r / H) = r - q"
    using H0 by (simp add: q_def field_simps)
  have "\<bar>(H - z) * (r / H)\<bar> \<le> 7 * M" unfolding i1 using z1 e(1) by linarith
  from fl_scaled_c [OF this e(2), folded U_def p_def]
  have p1: "\<bar>p * (r / H) - (r - q)\<bar> \<le> 10 * U" unfolding i1 by linarith
  have i0: "p / H * r = p * (r / H)" by simp
  have p2: "\<bar>p / H * r\<bar> \<le> 8 * M" unfolding i0 using p1 z1 e(1) U64 U0 by linarith
  have t1: "\<bar>t * r - p / H * r\<bar> \<le> 11 * U"
    unfolding t_def using fl_scaled_c [OF p2 e(1), folded U_def] by linarith
  have t2: "\<bar>(r - t * r) - q\<bar> \<le> 21 * U" using t1 p1 unfolding i0 by linarith
  have i2: "(1 - t) * r = r - t * r" by (simp add: algebra_simps)
  have "\<bar>(1 - t) * r\<bar> \<le> 5 * M" unfolding i2 using t2 z1 U64 U0 by linarith
  from fl_scaled_c [OF this e(1), folded U_def]
  have s1: "\<bar>fl (1 - t) * r - (r - t * r)\<bar> \<le> 8 * U" unfolding i2 by linarith
  have s2: "\<bar>fl (1 - t) * r - d\<bar> \<le> 48 * U" using s1 t2 e4 by linarith
  have s3: "\<bar>fl (1 - t) * r\<bar> \<le> 4 * M" using s2 d4 U64 U0 by linarith
  have m1: "\<bar>fl (fl (1 - t) * r) - fl (1 - t) * r\<bar> \<le> 5 * U"
    using fl_err_c [OF s3 h, folded U_def] by linarith
  have m2: "\<bar>y0 + fl (fl (1 - t) * r)\<bar> \<le> 6 * M" using m1 s3 y U64 U0 by linarith
  have "\<bar>fl (y0 + fl (fl (1 - t) * r)) - (y0 + fl (fl (1 - t) * r))\<bar> \<le> 7 * U"
    using fl_err_c [OF m2 h, folded U_def] by linarith
  then have "\<bar>fl (y0 + fl (fl (1 - t) * r)) - y\<bar> \<le> 66 * U"
    using m1 s2 e(3) by linarith
  then show ?thesis using M0 by (simp add: UM t_def)
qed

section \<open>Properties of the rounded operators\<close>

lemma dbl_eq_Num: "dbl x = Num y \<longleftrightarrow> \<bar>fl x\<bar> < 2 ^ 1024 \<and> y = fl x"
  by (auto simp: dbl_def Let_def)











lemma js_round_Num: "js_round v = Num z \<Longrightarrow> \<exists>x. v = Num x \<and> z = fl x"
  by (cases v) (simp_all add: dbl_eq_Num)

lemma js_neg_Num: "js_neg a = Num z \<Longrightarrow> a = Num (- z)"
  by (cases a) auto

lemma dbl_add_Num: "dbl_add a b = Num z \<Longrightarrow> \<exists>p q. a = Num p \<and> b = Num q \<and> z = fl (p + q)"
  unfolding dbl_add_def by (drule js_round_Num, cases a; cases b) auto

lemma dbl_sub_Num: "dbl_sub a b = Num z \<Longrightarrow> \<exists>p q. a = Num p \<and> b = Num q \<and> z = fl (p - q)"
  unfolding dbl_sub_def js_sub_def by (drule js_round_Num, cases a; cases b) auto

lemma dbl_mul_Num: "dbl_mul a b = Num z \<Longrightarrow> \<exists>p q. a = Num p \<and> b = Num q \<and> z = fl (p * q)"
  unfolding dbl_mul_def
  by (drule js_round_Num, cases a; cases b) (auto simp: js_signed_inf_def split: if_splits)

lemma dbl_div_Num:
  "dbl_div a (Num q) = Num z \<Longrightarrow> \<exists>p. a = Num p \<and> q \<noteq> 0 \<and> z = fl (p / q)"
  unfolding dbl_div_def
  by (drule js_round_Num, cases a) (auto simp: js_signed_inf_def split: if_splits)

section \<open>Properties of the follow tick\<close>


















section \<open>Properties of data retention\<close>

lemma map_get_map_set: "map_get (map_set m k v) k = Some v"
  by (induction m) (auto simp: map_get_def)

lemma js_slice_drop: "k \<le> length xs \<Longrightarrow> js_slice xs (Num (real k)) = drop k xs"
  by (simp add: js_slice_def)

lemma discardTick_truncates:
  assumes "map_get (buffers st) key = Some b" "data b = Some d"
    and "maxDataLength b = Some (Num (real n))" "0 < n" "n < length d"
  shows "discardTick key st
           = st\<lparr>buffers := map_set (buffers st) key (b\<lparr>data := Some (drop (length d - n) d)\<rparr>)\<rparr>"
proof -
  have "js_sub (Num (real (length d))) (Num (real n)) = Num (real (length d - n))"
    using assms(5) by (simp add: js_sub_def)
  moreover have "js_slice d (Num (real (length d - n))) = drop (length d - n) d"
    by (rule js_slice_drop) simp
  ultimately show ?thesis
    using assms
    by (simp add: discardTick_def hasMaxDataLength_def js_truthy_def js_gt_def Let_def)
qed

lemma discardTick_unset:
  "map_get (buffers st) key = Some b \<Longrightarrow> maxDataLength b = None \<Longrightarrow> discardTick key st = st"
  by (simp add: discardTick_def hasMaxDataLength_def)

lemma timers_autoRender: "timers (autoRender st) = timers st"
  by (simp add: autoRender_def render_effect_def)

lemma setBufferDiscardOptions_unset:
  "map_get (buffers st) key = Some b \<Longrightarrow> maxDataLength b = None \<Longrightarrow>
     set (timers (setBufferDiscardOptions key opts st)) \<subseteq> set (timers st)"
  by (auto simp: setBufferDiscardOptions_def hasMaxDataLength_def timers_autoRender Let_def
        clearInterval_def split: option.splits)

text \<open>
  C6: for a buffer with \<^verbatim>\<open>maxDataLength = n\<close> (a positive whole number) that holds more
  than \<open>n\<close> samples, one retention tick replaces the data by its last \<open>n\<close> samples, in
  their order; for a buffer without \<^verbatim>\<open>maxDataLength\<close> the tick changes nothing, and
  \<^verbatim>\<open>setBufferDiscardOptions\<close> starts no timer.
\<close>

theorem retention_tick:
  "(map_get (buffers st) key = Some b \<and> data b = Some d \<and> maxDataLength b = Some (Num (real n))
      \<and> 0 < n \<and> n < length d \<longrightarrow>
      map_get (buffers (discardTick key st)) key = Some (b\<lparr>data := Some (drop (length d - n) d)\<rparr>)
      \<and> length (drop (length d - n) d) = n
      \<and> take (length d - n) d @ drop (length d - n) d = d) \<and>
   (map_get (buffers st) key = Some b \<and> maxDataLength b = None \<longrightarrow>
      discardTick key st = st
      \<and> set (timers (setBufferDiscardOptions key opts st)) \<subseteq> set (timers st))"
  by (auto simp: discardTick_truncates map_get_map_set discardTick_unset
        dest: setBufferDiscardOptions_unset)

theorem retention_tick_witness:
  "map_get (buffers (discardTick ''s'' (base_plot\<lparr>buffers := [(''s'', long_series)]\<rparr>))) ''s''
     = Some (long_series\<lparr>data := Some (map (\<lambda>i. \<lparr> px = Num (real i), py = Num 0 \<rparr>) [50..<150])\<rparr>)
   \<and> discardTick ''a'' (base_plot\<lparr>buffers := [(''a'', two_samples)]\<rparr>)
       = base_plot\<lparr>buffers := [(''a'', two_samples)]\<rparr>"
proof
  let ?st = "base_plot\<lparr>buffers := [(''s'', long_series)]\<rparr>"
  let ?d = "map (\<lambda>i. \<lparr> px = Num (real i), py = Num 0 \<rparr>) [0..<150]"
  have "map_get (buffers ?st) ''s'' = Some long_series \<and> data long_series = Some ?d
        \<and> maxDataLength long_series = Some (Num (real 100)) \<and> (0::nat) < 100 \<and> 100 < length ?d"
    by (simp add: map_get_def base_plot_def long_series_def base_buffer_def)
  with retention_tick [of ?st "''s''" long_series ?d 100]
  have "map_get (buffers (discardTick ''s'' ?st)) ''s''
          = Some (long_series\<lparr>data := Some (drop (length ?d - 100) ?d)\<rparr>)"
    by blast
  moreover have "drop (length ?d - 100) ?d = map (\<lambda>i. \<lparr> px = Num (real i), py = Num 0 \<rparr>) [50..<150]"
    by (simp add: drop_map)
  ultimately show "map_get (buffers (discardTick ''s'' ?st)) ''s''
     = Some (long_series\<lparr>data := Some (map (\<lambda>i. \<lparr> px = Num (real i), py = Num 0 \<rparr>) [50..<150])\<rparr>)"
    by simp
next
  let ?st = "base_plot\<lparr>buffers := [(''a'', two_samples)]\<rparr>"
  have "map_get (buffers ?st) ''a'' = Some two_samples \<and> maxDataLength two_samples = None"
    by (simp add: map_get_def base_plot_def two_samples_def base_buffer_def)
  with retention_tick [of ?st "''a''" two_samples]
  show "discardTick ''a'' ?st = ?st"
    by blast
qed

section \<open>Properties of the follow controller\<close>

text \<open>
  C8, as amended: every call of \<^verbatim>\<open>startFollowingLatest\<close> invokes the registered start
  callback exactly once, before it returns, and leaves the controller following; every
  call of \<^verbatim>\<open>stopFollowingLatest\<close> invokes the registered stop callback exactly once and
  leaves it idle. So each transition fires its callback once; the callbacks are not
  tied to a change of state.
\<close>

theorem follow_callbacks_per_call:
  "invoked (startFollowingLatest st)
     = invoked st @ (case onFollowStartFunc st of None \<Rightarrow> [] | Some c \<Rightarrow> [c]) \<and>
   followTimer (startFollowingLatest st) \<noteq> None \<and>
   invoked (stopFollowingLatest st)
     = invoked st @ (case onFollowStopFunc st of None \<Rightarrow> [] | Some c \<Rightarrow> [c]) \<and>
   followTimer (stopFollowingLatest st) = None"
  by (simp add: startFollowingLatest_def stopFollowingLatest_def invoke_def setInterval_def
      clearInterval_def Let_def split: option.splits)

text \<open>
  C8 as stated fails: on an idle controller \<^verbatim>\<open>stopFollowingLatest\<close> fires the stop
  callback though the controller stays idle, and a second \<^verbatim>\<open>startFollowingLatest\<close> fires
  the start callback again though the controller was following already.
\<close>

theorem follow_callback_without_transition:
  "followTimer (base_plot\<lparr>onFollowStopFunc := Some 7\<rparr>) = None \<and>
   followTimer (stopFollowingLatest (base_plot\<lparr>onFollowStopFunc := Some 7\<rparr>)) = None \<and>
   invoked (stopFollowingLatest (base_plot\<lparr>onFollowStopFunc := Some 7\<rparr>)) = [7] \<and>
   followTimer (startFollowingLatest (base_plot\<lparr>onFollowStartFunc := Some 3\<rparr>)) = Some 1 \<and>
   followTimer (startFollowingLatest (startFollowingLatest (base_plot\<lparr>onFollowStartFunc := Some 3\<rparr>)))
     = Some 2 \<and>
   invoked (startFollowingLatest (startFollowingLatest (base_plot\<lparr>onFollowStartFunc := Some 3\<rparr>)))
     = [3, 3]"
  by (simp add: startFollowingLatest_def stopFollowingLatest_def invoke_def setInterval_def
      clearInterval_def Let_def base_plot_def)

section \<open>Properties of the usage errors\<close>

text \<open>
  C9: \<^verbatim>\<open>updateBuffer\<close> with an unknown key, \<^verbatim>\<open>focusOnPoint\<close> with an unknown key or a
  buffer without samples, \<^verbatim>\<open>focusOnPoint\<close> with an index (other than the default -1) below
  0 or not below the number of samples, and \<^verbatim>\<open>setRenderMode\<close> with a string other than
  \<^verbatim>\<open>auto\<close> and \<^verbatim>\<open>manual\<close> each log one diagnostic, return, and leave every field of the plot
  (so the buffers, the bounds and the render mode) as it was.
\<close>

theorem usage_errors_are_noops:
  "(map_get (buffers st) k1 = None \<longrightarrow>
      updateBuffer k1 upd st = st\<lparr>console := console st @ [(ConsoleError, BufferDoesNotExist k1)]\<rparr>) \<and>
   (map_get (buffers st) k2 = None
      \<or> (\<exists>b. map_get (buffers st) k2 = Some b \<and> (data b = None \<or> data b = Some [])) \<longrightarrow>
      focusOnPoint k2 i2 z2 st
        = st\<lparr>console := console st @ [(ConsoleWarn, BufferMissingOrEmpty k2)]\<rparr>) \<and>
   (map_get (buffers st) k3 = Some b3 \<and> data b3 = Some d3 \<and> d3 \<noteq> [] \<and> \<not> js_eq i3 (Num (- 1))
      \<and> (js_lt i3 (Num 0) \<or> js_ge i3 (Num (real (length d3)))) \<longrightarrow>
      focusOnPoint k3 (Some i3) z3 st
        = st\<lparr>console := console st @ [(ConsoleWarn, PointIndexOutOfBounds i3)]\<rparr>) \<and>
   (mode \<noteq> ''auto'' \<and> mode \<noteq> ''manual'' \<longrightarrow>
      setRenderMode mode st
        = st\<lparr>console := console st @ [(ConsoleError, InvalidRenderMode mode)]\<rparr>)"
proof (intro conjI impI)
  assume "map_get (buffers st) k1 = None"
  then show "updateBuffer k1 upd st = st\<lparr>console := console st @ [(ConsoleError, BufferDoesNotExist k1)]\<rparr>"
    by (simp add: updateBuffer_def log_console_def)
next
  assume "map_get (buffers st) k2 = None
      \<or> (\<exists>b. map_get (buffers st) k2 = Some b \<and> (data b = None \<or> data b = Some []))"
  then show "focusOnPoint k2 i2 z2 st
        = st\<lparr>console := console st @ [(ConsoleWarn, BufferMissingOrEmpty k2)]\<rparr>"
    by (auto simp: focusOnPoint_def log_console_def Let_def)
next
  assume "map_get (buffers st) k3 = Some b3 \<and> data b3 = Some d3 \<and> d3 \<noteq> [] \<and> \<not> js_eq i3 (Num (- 1))
      \<and> (js_lt i3 (Num 0) \<or> js_ge i3 (Num (real (length d3))))"
  then show "focusOnPoint k3 (Some i3) z3 st
        = st\<lparr>console := console st @ [(ConsoleWarn, PointIndexOutOfBounds i3)]\<rparr>"
    by (auto simp: focusOnPoint_def log_console_def Let_def)
next
  assume "mode \<noteq> ''auto'' \<and> mode \<noteq> ''manual''"
  then show "setRenderMode mode st
        = st\<lparr>console := console st @ [(ConsoleError, InvalidRenderMode mode)]\<rparr>"
    by (simp add: setRenderMode_def log_console_def)
qed

theorem usage_errors_are_noops_witness:
  "updateBuffer ''zzz'' (Fields (no_fields\<lparr>new_visible := Some (Some False)\<rparr>)) point_bounds_plot
     = point_bounds_plot\<lparr>console := [(ConsoleError, BufferDoesNotExist ''zzz'')]\<rparr> \<and>
   focusOnPoint ''zzz'' None None point_bounds_plot
     = point_bounds_plot\<lparr>console := [(ConsoleWarn, BufferMissingOrEmpty ''zzz'')]\<rparr> \<and>
   focusOnPoint ''a'' (Some (Num 2)) None point_bounds_plot
     = point_bounds_plot\<lparr>console := [(ConsoleWarn, PointIndexOutOfBounds (Num 2))]\<rparr> \<and>
   setRenderMode ''fast'' point_bounds_plot
     = point_bounds_plot\<lparr>console := [(ConsoleError, InvalidRenderMode ''fast'')]\<rparr>"
proof -
  let ?d = "[\<lparr> px = Num 0, py = Num 0 \<rparr>, \<lparr> px = Num 10, py = Num 5 \<rparr>]"
  have h1: "map_get (buffers point_bounds_plot) ''zzz'' = None"
    by (simp add: point_bounds_plot_def base_plot_def map_get_def)
  have h3: "map_get (buffers point_bounds_plot) ''a'' = Some two_samples \<and> data two_samples = Some ?d
      \<and> ?d \<noteq> [] \<and> \<not> js_eq (Num 2) (Num (- 1))
      \<and> (js_lt (Num 2) (Num 0) \<or> js_ge (Num 2) (Num (real (length ?d))))"
    by (simp add: point_bounds_plot_def base_plot_def map_get_def two_samples_def base_buffer_def
        js_eq_def js_ge_def)
  have h4: "''fast'' \<noteq> ''auto'' \<and> ''fast'' \<noteq> ''manual''"
    by simp
  have c: "console point_bounds_plot = []"
    by (simp add: point_bounds_plot_def base_plot_def)
  from usage_errors_are_noops
    [of point_bounds_plot "''zzz''" "Fields (no_fields\<lparr>new_visible := Some (Some False)\<rparr>)"
        "''zzz''" None None "''a''" two_samples ?d "Num 2" None "''fast''"]
    h1 h3 h4
  show ?thesis
    unfolding c by (simp only: append_Nil simp_thms)
qed

section \<open>Properties of the render pass\<close>

lemma render_effect_kept:
  "bounds st = Some b \<Longrightarrow> \<not> normalizeBounds st \<Longrightarrow> render_effect st = st"
  by (simp add: render_effect_def)

lemma renderAxes_zero_range:
  assumes "bounds st = Some b" "\<not> normalizeBounds st"
    and "js_eq (js_sub (x_max b) (x_min b)) (Num 0) \<or> js_eq (js_sub (y_max b) (y_min b)) (Num 0)"
  shows "renderAxes st
           = Some (st, [Save, SetStyle StrokeStyle, SetStyle LineWidth, SetStyle Font,
                        SetStyle FillStyle, Restore])"
  using assms by (auto simp: renderAxes_def render_effect_kept Let_def)

lemma drawBuffer_zero_range:
  assumes "bounds st = Some b" "\<not> normalizeBounds st"
    and "js_eq (js_sub (x_max b) (x_min b)) (Num 0) \<or> js_eq (js_sub (y_max b) (y_min b)) (Num 0)"
  shows "drawBuffer paintSeries st key buf
           = Some (if visible buf = Some False
                      \<or> map_get (localBufferOption (options st)) key = Some False
                   then []
                   else [Save, SetStyle StrokeStyle, SetStyle FillStyle, SetStyle LineWidth, Restore])"
  using assms by (auto simp: drawBuffer_def drawBounds_def Let_def)

lemma own_axis_fields:
  "\<not> normalizeBounds own_axis_plot" "canvas_width own_axis_plot = Num 200"
  "canvas_height own_axis_plot = Num 100"
  "bounds own_axis_plot = Some \<lparr> x_min = Num 5, x_max = Num 5, y_min = Num 3, y_max = Num 3 \<rparr>"
  "buffers own_axis_plot
     = [(''a'', two_samples\<lparr>axisVisible := Some True, axisPlacement := Some [Left]\<rparr>)]"
  "localBufferOption (options own_axis_plot) = []"
  by (simp_all add: own_axis_plot_def base_plot_def base_options_def)

lemma drawBufferAxis_own_axis:
  "drawBufferAxis measureText own_axis_plot
       (two_samples\<lparr>axisVisible := Some True, axisPlacement := Some [Left]\<rparr>) ''a''
     = Some [Save, SetStyle StrokeStyle, SetStyle LineWidth, SetStyle Font, SetStyle FillStyle,
             SetStyle TextBaseline, BeginPath, MoveTo (Num 0) (Num 0), LineTo (Num 0) (Num 100),
             Stroke, Restore]"
  by (simp add: drawBufferAxis_def own_axis_fields or_default_def two_samples_def base_buffer_def
      ticks_degenerate placementOps_def Let_def)

lemma render_own_axis:
  "render paintSeries measureText own_axis_plot
     = Some (own_axis_plot,
         [ClearRect (Num 0) (Num 0) (Num 200) (Num 100),
          Save, SetStyle StrokeStyle, SetStyle LineWidth, SetStyle Font, SetStyle FillStyle, Restore,
          Save, SetStyle StrokeStyle, SetStyle FillStyle, SetStyle LineWidth, Restore,
          Save, SetStyle StrokeStyle, SetStyle LineWidth, SetStyle Font, SetStyle FillStyle,
          SetStyle TextBaseline, BeginPath, MoveTo (Num 0) (Num 0), LineTo (Num 0) (Num 100),
          Stroke, Restore])"
proof -
  have z: "js_eq (js_sub (x_max \<lparr> x_min = Num 5, x_max = Num 5, y_min = Num 3, y_max = Num 3 \<rparr>)
                         (x_min \<lparr> x_min = Num 5, x_max = Num 5, y_min = Num 3, y_max = Num 3 \<rparr>)) (Num 0)
         \<or> js_eq (js_sub (y_max \<lparr> x_min = Num 5, x_max = Num 5, y_min = Num 3, y_max = Num 3 \<rparr>)
                         (y_min \<lparr> x_min = Num 5, x_max = Num 5, y_min = Num 3, y_max = Num 3 \<rparr>)) (Num 0)"
    by (simp add: js_eq_def js_sub_def)
  note ra = renderAxes_zero_range [OF own_axis_fields(4) own_axis_fields(1) z]
  note db = drawBuffer_zero_range [OF own_axis_fields(4) own_axis_fields(1) z]
  show ?thesis
    by (simp add: render_def ra own_axis_fields db drawBufferAxis_own_axis map_get_def)
       (simp add: two_samples_def base_buffer_def)
qed

text \<open>
  C7: on a plot whose bounds have zero range on both axes (\<^verbatim>\<open>normalizeBounds\<close> off, so
  these are the bounds the render works with), \<^verbatim>\<open>renderAxes\<close> and \<^verbatim>\<open>drawBuffer\<close> return
  right after their range check, but the render pass is not skipped entirely:
  \<^verbatim>\<open>drawBufferAxis\<close>, which \<^verbatim>\<open>render\<close> calls for every buffer and which has no range
  check, strokes the axis line of a buffer that shows an axis of its own.
\<close>

theorem zero_range_render_draws_buffer_axis:
  "bounds own_axis_plot = Some \<lparr> x_min = Num 5, x_max = Num 5, y_min = Num 3, y_max = Num 3 \<rparr> \<and>
   normalizeBounds own_axis_plot = False \<and>
   renderAxes own_axis_plot
     = Some (own_axis_plot, [Save, SetStyle StrokeStyle, SetStyle LineWidth, SetStyle Font,
                             SetStyle FillStyle, Restore]) \<and>
   drawBuffer one_stroke own_axis_plot ''a''
       (two_samples\<lparr>axisVisible := Some True, axisPlacement := Some [Left]\<rparr>)
     = Some [Save, SetStyle StrokeStyle, SetStyle FillStyle, SetStyle LineWidth, Restore] \<and>
   render one_stroke fixed_width own_axis_plot
     = Some (own_axis_plot,
         [ClearRect (Num 0) (Num 0) (Num 200) (Num 100),
          Save, SetStyle StrokeStyle, SetStyle LineWidth, SetStyle Font, SetStyle FillStyle, Restore,
          Save, SetStyle StrokeStyle, SetStyle FillStyle, SetStyle LineWidth, Restore,
          Save, SetStyle StrokeStyle, SetStyle LineWidth, SetStyle Font, SetStyle FillStyle,
          SetStyle TextBaseline, BeginPath, MoveTo (Num 0) (Num 0), LineTo (Num 0) (Num 100),
          Stroke, Restore]) \<and>
   filter is_geometry (snd (the (render one_stroke fixed_width own_axis_plot)))
     = [BeginPath, MoveTo (Num 0) (Num 0), LineTo (Num 0) (Num 100), Stroke]"
proof -
  let ?b = "\<lparr> x_min = Num 5, x_max = Num 5, y_min = Num 3, y_max = Num 3 \<rparr>"
  have z: "js_eq (js_sub (x_max ?b) (x_min ?b)) (Num 0) \<or> js_eq (js_sub (y_max ?b) (y_min ?b)) (Num 0)"
    by (simp add: js_eq_def js_sub_def)
  note ra = renderAxes_zero_range [OF own_axis_fields(4) own_axis_fields(1) z]
  have db: "drawBuffer one_stroke own_axis_plot ''a''
              (two_samples\<lparr>axisVisible := Some True, axisPlacement := Some [Left]\<rparr>)
            = Some [Save, SetStyle StrokeStyle, SetStyle FillStyle, SetStyle LineWidth, Restore]"
    by (simp add: drawBuffer_zero_range [OF own_axis_fields(4) own_axis_fields(1) z]
        own_axis_fields map_get_def two_samples_def base_buffer_def)
  show ?thesis
    using own_axis_fields(1) by (simp add: ra db render_own_axis own_axis_fields)
qed

end
